theory Spec2Isabelle
  imports Main "HOL-Library.Sublist"
begin

text \<open>
  A shallow embedding of go-callvis: the analysis session with its render options
  (\<^verbatim>\<open>NewAnalysis\<close>, \<^verbatim>\<open>OptsSetup\<close>, \<^verbatim>\<open>DoAnalysis\<close>, \<^verbatim>\<open>ProcessListArgs\<close>, \<^verbatim>\<open>OverrideByHTTP\<close>,
  \<^verbatim>\<open>Render\<close>), the image cache (\<^verbatim>\<open>FindCachedImg\<close>, \<^verbatim>\<open>CacheImg\<close>, \<^verbatim>\<open>pathExists\<close>,
  \<^verbatim>\<open>copyFile\<close>), and the entry point (\<^verbatim>\<open>main\<close> up to the call of the analysis, and the
  request \<^verbatim>\<open>handler\<close>). The session is passed in and returned; the file system and the
  standard error stream are values; errors and panics are results. What belongs to
  other packages is either modelled after its documented behaviour (strings,
  path/filepath, flag, os over the path resolution of a Unix kernel) or taken as a
  parameter (package loading, the call graph constructions, the renderer
  \<^verbatim>\<open>output.PrintOutput\<close>, the converter \<^verbatim>\<open>dot.DotToImage\<close>, number formats).
  The definitions come first, then auxiliary lemmas, then one subsection per claim.
\<close>

section \<open>Go values: errors and panics\<close>

text \<open>
  A Go \<^verbatim>\<open>error\<close> is modelled by the data its message is built from. Errors made by
  \<^verbatim>\<open>errors.New\<close> and \<^verbatim>\<open>fmt.Errorf\<close> carry their text; errors of package \<^verbatim>\<open>os\<close> are
  path errors (operation, path, error number). A run-time panic is a value of its own,
  so that every function that can panic has the panic as a branch of its result.
\<close>

datatype errno = ENOENT | ENOTDIR | EISDIR | EEXIST | EACCES | ENAMETOOLONG | EINVAL

datatype error = errorString string | PathError string string errno

datatype panic = NilDereference | IndexOutOfRange nat nat

definition errors_New :: "string \<Rightarrow> error" where
  "errors_New msg = errorString msg"

fun errno_Error :: "errno \<Rightarrow> string" where
  "errno_Error ENOENT = ''no such file or directory''"
| "errno_Error ENOTDIR = ''not a directory''"
| "errno_Error EISDIR = ''is a directory''"
| "errno_Error EEXIST = ''file exists''"
| "errno_Error EACCES = ''permission denied''"
| "errno_Error ENAMETOOLONG = ''file name too long''"
| "errno_Error EINVAL = ''invalid argument''"

fun Error :: "error \<Rightarrow> string" where
  "Error (errorString msg) = msg"
| "Error (PathError op path e) = op @ '' '' @ path @ '': '' @ errno_Error e"

fun os_IsNotExist :: "error \<Rightarrow> bool" where
  "os_IsNotExist (PathError op path e) = (e = ENOENT)"
| "os_IsNotExist (errorString msg) = False"

section \<open>Package strings\<close>

text \<open>
  Go strings are byte sequences, here \<^typ>\<open>string\<close>. \<^verbatim>\<open>strings.Split\<close> is only ever
  called with a one-byte separator, which is the second argument below.
\<close>

fun strings_Split :: "string \<Rightarrow> char \<Rightarrow> string list" where
  "strings_Split [] sep = [[]]"
| "strings_Split (c # cs) sep =
     (if c = sep then [] # strings_Split cs sep
      else (case strings_Split cs sep of
              [] \<Rightarrow> [[c]]
            | t # ts \<Rightarrow> (c # t) # ts))"

text \<open>
  \<^verbatim>\<open>strings.TrimSpace\<close> removes leading and trailing runes for which
  \<^verbatim>\<open>unicode.IsSpace\<close> holds. On bytes these are the UTF-8 encodings below: the six
  ASCII spaces, U+0085, U+00A0, U+1680, U+2000 to U+200A, U+2028, U+2029, U+202F,
  U+205F and U+3000. No encoding is a prefix or a suffix of another one.
\<close>

definition unicode_spaces :: "string list" where
  "unicode_spaces =
     [[CHR 0x09], [CHR 0x0A], [CHR 0x0B], [CHR 0x0C], [CHR 0x0D], [CHR 0x20],
      [CHR 0xC2, CHR 0x85], [CHR 0xC2, CHR 0xA0],
      [CHR 0xE1, CHR 0x9A, CHR 0x80],
      [CHR 0xE2, CHR 0x80, CHR 0x80], [CHR 0xE2, CHR 0x80, CHR 0x81],
      [CHR 0xE2, CHR 0x80, CHR 0x82], [CHR 0xE2, CHR 0x80, CHR 0x83],
      [CHR 0xE2, CHR 0x80, CHR 0x84], [CHR 0xE2, CHR 0x80, CHR 0x85],
      [CHR 0xE2, CHR 0x80, CHR 0x86], [CHR 0xE2, CHR 0x80, CHR 0x87],
      [CHR 0xE2, CHR 0x80, CHR 0x88], [CHR 0xE2, CHR 0x80, CHR 0x89],
      [CHR 0xE2, CHR 0x80, CHR 0x8A],
      [CHR 0xE2, CHR 0x80, CHR 0xA8], [CHR 0xE2, CHR 0x80, CHR 0xA9],
      [CHR 0xE2, CHR 0x80, CHR 0xAF],
      [CHR 0xE2, CHR 0x81, CHR 0x9F],
      [CHR 0xE3, CHR 0x80, CHR 0x80]]"

definition leading_space :: "string \<Rightarrow> nat" where
  "leading_space s =
     (case filter (\<lambda>e. take (length e) s = e) unicode_spaces of
        [] \<Rightarrow> 0
      | e # es \<Rightarrow> length e)"

function TrimLeftSpace :: "string \<Rightarrow> string" where
  "TrimLeftSpace s =
     (if leading_space s = 0 then s else TrimLeftSpace (drop (leading_space s) s))"
  by pat_completeness auto
termination
proof (relation "measure length")
  show "wf (measure length)" by simp
next
  fix s :: string
  assume "leading_space s \<noteq> 0"
  moreover have "leading_space s \<le> length s"
  proof (cases "filter (\<lambda>e. take (length e) s = e) unicode_spaces")
    case Nil
    then show ?thesis by (simp add: leading_space_def)
  next
    case (Cons e es)
    then have "e \<in> set (filter (\<lambda>e. take (length e) s = e) unicode_spaces)"
      by simp
    then have "take (length e) s = e" by simp
    then have "length e \<le> length s"
      by (metis length_take min.cobounded1)
    with Cons show ?thesis by (simp add: leading_space_def)
  qed
  ultimately show "(drop (leading_space s) s, s) \<in> measure length" by simp
qed

text \<open>Trimming on the right is trimming the reversed string of reversed encodings.\<close>

definition trailing_space :: "string \<Rightarrow> nat" where
  "trailing_space s =
     (case filter (\<lambda>e. take (length e) (rev s) = rev e) unicode_spaces of
        [] \<Rightarrow> 0
      | e # es \<Rightarrow> length e)"

function TrimRightSpace :: "string \<Rightarrow> string" where
  "TrimRightSpace s =
     (if trailing_space s = 0 then s
      else TrimRightSpace (take (length s - trailing_space s) s))"
  by pat_completeness auto
termination
proof (relation "measure length")
  show "wf (measure length)" by simp
next
  fix s :: string
  assume "trailing_space s \<noteq> 0"
  moreover have "trailing_space s \<le> length s"
  proof (cases "filter (\<lambda>e. take (length e) (rev s) = rev e) unicode_spaces")
    case Nil
    then show ?thesis by (simp add: trailing_space_def)
  next
    case (Cons e es)
    then have "e \<in> set (filter (\<lambda>e. take (length e) (rev s) = rev e) unicode_spaces)"
      by simp
    then have "take (length e) (rev s) = rev e" by simp
    then have "length (rev e) \<le> length (rev s)"
      by (metis length_take min.cobounded1 length_rev)
    with Cons show ?thesis by (simp add: trailing_space_def)
  qed
  ultimately show "(take (length s - trailing_space s) s, s) \<in> measure length" by simp
qed

definition strings_TrimSpace :: "string \<Rightarrow> string" where
  "strings_TrimSpace s = TrimRightSpace (TrimLeftSpace s)"

text \<open>
  \<^verbatim>\<open>strings.TrimRightFunc\<close> is used with a predicate that holds for every rune but
  the two ASCII separators, so on bytes it drops the trailing bytes the predicate holds
  for.
\<close>

definition strings_TrimRightFunc :: "string \<Rightarrow> (char \<Rightarrow> bool) \<Rightarrow> string" where
  "strings_TrimRightFunc s f = rev (dropWhile f (rev s))"

fun strings_Contains :: "string \<Rightarrow> string \<Rightarrow> bool" where
  "strings_Contains [] substr = (substr = [])"
| "strings_Contains (c # s) substr = (prefix substr (c # s) \<or> strings_Contains s substr)"

definition strings_HasSuffix :: "string \<Rightarrow> string \<Rightarrow> bool" where
  "strings_HasSuffix s suff =
     (length suff \<le> length s \<and> drop (length s - length suff) s = suff)"

fun strings_Join :: "string list \<Rightarrow> string \<Rightarrow> string" where
  "strings_Join [] sep = []"
| "strings_Join [x] sep = x"
| "strings_Join (x # y # ys) sep = x @ sep @ strings_Join (y # ys) sep"

section \<open>The analysis session and its render options\<close>

text \<open>
  The parts of the external packages \<^verbatim>\<open>go/types\<close>, \<^verbatim>\<open>go/ssa\<close> and \<^verbatim>\<open>callgraph\<close> that
  the program reads: a package has a name and an import path, an SSA package has its
  members that are functions, a program has the packages registered as importable
  (looked up by \<^verbatim>\<open>ImportedPackage\<close>) and all its packages.
\<close>

datatype ssa_Function = Function string string

record types_Package =
  Name :: string
  Path :: string

record ssa_Package =
  Pkg :: types_Package
  Members :: "(string \<times> ssa_Function) list"

definition Func :: "ssa_Package \<Rightarrow> string \<Rightarrow> ssa_Function option" where
  "Func p name = map_of (Members p) name"

record ssa_Program =
  imported :: "(string \<times> ssa_Package) list"
  AllPackages :: "ssa_Package option list"

definition ImportedPackage :: "ssa_Program \<Rightarrow> string \<Rightarrow> ssa_Package option" where
  "ImportedPackage prg path = map_of (imported prg) path"

datatype callgraph_Graph = Graph "(ssa_Function \<times> ssa_Function) list"

type_synonym CallGraphType = string

definition CallGraphTypeStatic :: CallGraphType where
  "CallGraphTypeStatic = ''static''"

definition CallGraphTypeCha :: CallGraphType where
  "CallGraphTypeCha = ''cha''"

definition CallGraphTypeRta :: CallGraphType where
  "CallGraphTypeRta = ''rta''"

record renderOpts =
  cacheDir :: string
  focus :: string
  group :: "string list"
  ignore :: "string list"
  include' :: "string list"
  limit :: "string list"
  nointer :: bool
  refresh :: bool
  nostd :: bool
  algo :: CallGraphType

text \<open>
  The fields \<^verbatim>\<open>opts\<close>, \<^verbatim>\<open>prog\<close>, \<^verbatim>\<open>mainPkg\<close> and \<^verbatim>\<open>callgraph\<close> are pointers, nil
  until they are set.
\<close>

record Analysis =
  opts :: "renderOpts option"
  prog :: "ssa_Program option"
  pkgs :: "ssa_Package list"
  mainPkg :: "ssa_Package option"
  callgraph :: "callgraph_Graph option"
  outputFormat :: string
  Minlen :: nat
  PrintOptions :: "(string \<times> string) list"

definition NewAnalysis :: "string \<Rightarrow> Analysis" where
  "NewAnalysis fmt =
     \<lparr>opts = None, prog = None, pkgs = [], mainPkg = None, callgraph = None,
      outputFormat = fmt, Minlen = 0, PrintOptions = []\<rparr>"

text \<open>\<^verbatim>\<open>OptsSetup\<close> ignores its arguments \<^verbatim>\<open>refresh\<close> and \<^verbatim>\<open>algo\<close>, as the source does.\<close>

definition OptsSetup ::
  "Analysis \<Rightarrow> string \<Rightarrow> string \<Rightarrow> string \<Rightarrow> string \<Rightarrow> string \<Rightarrow> string \<Rightarrow>
   bool \<Rightarrow> bool \<Rightarrow> bool \<Rightarrow> CallGraphType \<Rightarrow> Analysis" where
  "OptsSetup a cacheDir_arg focus_arg group_arg ignore_arg include_arg limit_arg
     nointer_arg refresh_arg nostd_arg algo_arg =
     a\<lparr>opts := Some
        \<lparr>cacheDir = cacheDir_arg, focus = focus_arg, group = [group_arg],
         ignore = [ignore_arg], include' = [include_arg], limit = [limit_arg],
         nointer = nointer_arg, refresh = False, nostd = nostd_arg, algo = []\<rparr>\<rparr>"

subsection \<open>ProcessListArgs\<close>

text \<open>
  The loop over the grouping tokens. \<open>groupBy\<close> is the local slice, \<open>grp\<close> the
  field \<^verbatim>\<open>a.opts.group\<close>, which the source assigns inside the loop, after each
  accepted token. The result is the returned error and the field's final value.
\<close>

fun group_loop :: "string list \<Rightarrow> string list \<Rightarrow> string list \<Rightarrow> error option \<times> string list" where
  "group_loop [] groupBy grp = (None, grp)"
| "group_loop (g # gs) groupBy grp =
     (let g' = strings_TrimSpace g in
      if g' = '''' then group_loop gs groupBy grp
      else if g' \<noteq> ''pkg'' \<and> g' \<noteq> ''type''
        then (Some (errors_New ''invalid group option''), grp)
      else group_loop gs (groupBy @ [g']) (groupBy @ [g']))"

text \<open>The loop of the three path lists: the trimmed tokens that are not empty.\<close>

fun paths_loop :: "string list \<Rightarrow> string list \<Rightarrow> string list" where
  "paths_loop [] paths = paths"
| "paths_loop (p # ps) paths =
     (let p' = strings_TrimSpace p in
      if p' \<noteq> '''' then paths_loop ps (paths @ [p']) else paths_loop ps paths)"

text \<open>
  One of the three guarded blocks \<^verbatim>\<open>if len(xs) > 0 { ...; xs = paths }\<close>: an empty
  list stays as it is, any other list is replaced by the tokens of its first element.
\<close>

definition split_paths :: "string list \<Rightarrow> string list" where
  "split_paths xs =
     (case xs of
        [] \<Rightarrow> xs
      | x # rest \<Rightarrow> paths_loop (strings_Split x (CHR '','')) [])"

definition ProcessListArgs :: "Analysis \<Rightarrow> (panic + error option) \<times> Analysis" where
  "ProcessListArgs a =
     (case opts a of
        None \<Rightarrow> (Inl NilDereference, a)
      | Some ro \<Rightarrow>
          (case group ro of
             [] \<Rightarrow> (Inl (IndexOutOfRange 0 0), a)
           | g0 # rest \<Rightarrow>
               (case group_loop (strings_Split g0 (CHR '','')) [] (group ro) of
                  (Some e, grp) \<Rightarrow> (Inr (Some e), a\<lparr>opts := Some (ro\<lparr>group := grp\<rparr>)\<rparr>)
                | (None, grp) \<Rightarrow>
                    (Inr None,
                     a\<lparr>opts := Some
                        (ro\<lparr>group := grp,
                            ignore := split_paths (ignore ro),
                            include' := split_paths (include' ro),
                            limit := split_paths (limit ro)\<rparr>)\<rparr>))))"

subsection \<open>OverrideByHTTP\<close>

text \<open>
  A request, as far as the program reads it: the path of its URL and the parsed form
  (\<^verbatim>\<open>url.Values\<close>, a map from a key to its values). \<^verbatim>\<open>FormValue\<close> is the first value of
  the key, or the empty string.
\<close>

record http_Request =
  URL_Path :: string
  Form :: "(string \<times> string list) list"

definition FormValue :: "http_Request \<Rightarrow> string \<Rightarrow> string" where
  "FormValue r key =
     (case map_of (Form r) key of
        None \<Rightarrow> ''''
      | Some [] \<Rightarrow> ''''
      | Some (v # vs) \<Rightarrow> v)"

text \<open>The assignment \<^verbatim>\<open>xs[0] = v\<close>, which panics on an empty slice.\<close>

definition set_first :: "string list \<Rightarrow> string \<Rightarrow> panic + string list" where
  "set_first xs v =
     (if 0 < length xs then Inr (xs[0 := v]) else Inl (IndexOutOfRange 0 (length xs)))"

text \<open>
  The four flag overrides come first and cannot fail. The four list overrides follow in
  the order group, limit, ignore, include; a panic leaves the options as the statements
  before it made them.
\<close>

definition override_flags :: "renderOpts \<Rightarrow> http_Request \<Rightarrow> renderOpts" where
  "override_flags ro r =
     (let o1 = (if FormValue r ''f'' = ''all'' then ro\<lparr>focus := ''''\<rparr>
                else if FormValue r ''f'' \<noteq> '''' then ro\<lparr>focus := FormValue r ''f''\<rparr>
                else ro);
          o2 = (if FormValue r ''std'' \<noteq> '''' then o1\<lparr>nostd := False\<rparr> else o1);
          o3 = (if FormValue r ''nointer'' \<noteq> '''' then o2\<lparr>nointer := True\<rparr> else o2)
      in (if FormValue r ''refresh'' \<noteq> '''' then o3\<lparr>refresh := True\<rparr> else o3))"

definition override_group :: "renderOpts \<Rightarrow> http_Request \<Rightarrow> (panic + unit) \<times> renderOpts" where
  "override_group ro r =
     (if FormValue r ''group'' \<noteq> '''' then
        (case set_first (group ro) (FormValue r ''group'') of
           Inl p \<Rightarrow> (Inl p, ro)
         | Inr xs \<Rightarrow> (Inr (), ro\<lparr>group := xs\<rparr>))
      else (Inr (), ro))"

definition override_limit :: "renderOpts \<Rightarrow> http_Request \<Rightarrow> (panic + unit) \<times> renderOpts" where
  "override_limit ro r =
     (if FormValue r ''limit'' \<noteq> '''' then
        (case set_first (limit ro) (FormValue r ''limit'') of
           Inl p \<Rightarrow> (Inl p, ro)
         | Inr xs \<Rightarrow> (Inr (), ro\<lparr>limit := xs\<rparr>))
      else (Inr (), ro))"

definition override_ignore :: "renderOpts \<Rightarrow> http_Request \<Rightarrow> (panic + unit) \<times> renderOpts" where
  "override_ignore ro r =
     (if FormValue r ''ignore'' \<noteq> '''' then
        (case set_first (ignore ro) (FormValue r ''ignore'') of
           Inl p \<Rightarrow> (Inl p, ro)
         | Inr xs \<Rightarrow> (Inr (), ro\<lparr>ignore := xs\<rparr>))
      else (Inr (), ro))"

definition override_include :: "renderOpts \<Rightarrow> http_Request \<Rightarrow> (panic + unit) \<times> renderOpts" where
  "override_include ro r =
     (if FormValue r ''include'' \<noteq> '''' then
        (case set_first (include' ro) (FormValue r ''include'') of
           Inl p \<Rightarrow> (Inl p, ro)
         | Inr xs \<Rightarrow> (Inr (), ro\<lparr>include' := xs\<rparr>))
      else (Inr (), ro))"

text \<open>
  Without options (a nil pointer) the first statement that assigns a field panics; a
  request none of whose eight parameters has a value assigns nothing.
\<close>

definition OverrideByHTTP :: "Analysis \<Rightarrow> http_Request \<Rightarrow> (panic + unit) \<times> Analysis" where
  "OverrideByHTTP a r =
     (case opts a of
        None \<Rightarrow>
          if list_all (\<lambda>key. FormValue r key = '''')
               [''f'', ''std'', ''nointer'', ''refresh'', ''group'', ''limit'', ''ignore'',
                ''include'']
          then (Inr (), a)
          else (Inl NilDereference, a)
      | Some ro \<Rightarrow>
          (case override_group (override_flags ro r) r of
             (Inl p, o1) \<Rightarrow> (Inl p, a\<lparr>opts := Some o1\<rparr>)
           | (Inr u, o1) \<Rightarrow>
          (case override_limit o1 r of
             (Inl p, o2) \<Rightarrow> (Inl p, a\<lparr>opts := Some o2\<rparr>)
           | (Inr u, o2) \<Rightarrow>
          (case override_ignore o2 r of
             (Inl p, o3) \<Rightarrow> (Inl p, a\<lparr>opts := Some o3\<rparr>)
           | (Inr u, o3) \<Rightarrow>
          (case override_include o3 r of
             (Inl p, o4) \<Rightarrow> (Inl p, a\<lparr>opts := Some o4\<rparr>)
           | (Inr u, o4) \<Rightarrow> (Inr (), a\<lparr>opts := Some o4\<rparr>))))))"

section \<open>Paths and files\<close>

subsection \<open>Package path/filepath (Unix)\<close>

text \<open>
  \<^verbatim>\<open>filepath.Clean\<close> works element by element: empty elements and \<^verbatim>\<open>.\<close> are dropped,
  \<^verbatim>\<open>..\<close> removes the element before it, is kept in front of a relative path and is
  dropped at the root. \<open>out\<close> holds the elements written so far.
\<close>

fun clean_elems :: "bool \<Rightarrow> string list \<Rightarrow> string list \<Rightarrow> string list" where
  "clean_elems rooted [] out = out"
| "clean_elems rooted (e # es) out =
     (if e = '''' \<or> e = ''.'' then clean_elems rooted es out
      else if e = ''..'' then
        (if out \<noteq> [] \<and> last out \<noteq> ''..'' then clean_elems rooted es (butlast out)
         else if \<not> rooted then clean_elems rooted es (out @ [''..''])
         else clean_elems rooted es out)
      else clean_elems rooted es (out @ [e]))"

definition filepath_Clean :: "string \<Rightarrow> string" where
  "filepath_Clean path =
     (if path = '''' then ''.''
      else
        (let rooted = (hd path = CHR ''/'');
             out = clean_elems rooted (strings_Split path (CHR ''/'')) [];
             res = (if rooted then ''/'' else '''') @ strings_Join out ''/''
         in if res = '''' then ''.'' else res))"

definition filepath_Join :: "string list \<Rightarrow> string" where
  "filepath_Join elem =
     (case dropWhile (\<lambda>e. e = '''') elem of
        [] \<Rightarrow> ''''
      | e # es \<Rightarrow> filepath_Clean (strings_Join (e # es) ''/''))"

subsection \<open>The file system of the kernel\<close>

text \<open>
  The file system is the one a Unix kernel shows to the process, which is not
  privileged. A node is a regular file with its bytes, a directory, or a special node;
  each node carries what the process may do with it: read it, write it, and search it
  (for a directory, look up names in it). A node is stored under its absolute name, the
  list of directory entries that lead to it from the root; the root has the empty
  list. The process has a working directory.

  Of the special nodes the model has the kind that accepts what is written and drops
  it, as the null device does. There are no symbolic or hard links, no read-only or
  full devices, no limit on open files and no other process changing the file system.
\<close>

record perm =
  may_read :: bool
  may_write :: bool
  may_search :: bool

datatype node = RegularFile perm string | Directory perm | Special perm

record filesystem =
  nodes :: "string list \<Rightarrow> node option"
  cwd :: "string list"

text \<open>An open file: the name it was opened under and the node that is open.\<close>

record os_File =
  file_name :: string
  file_node :: "string list"

definition NAME_MAX :: nat where
  "NAME_MAX = 255"

definition PATH_MAX :: nat where
  "PATH_MAX = 4096"

text \<open>
  Path resolution walks the elements of a path from a directory \<open>cur\<close>. Every element
  needs \<open>cur\<close> to be a directory; an empty element (a doubled or trailing separator)
  needs nothing more; any other element needs the directory to be searchable; \<^verbatim>\<open>..\<close>
  goes to the parent, which at the root is the root; a name must not be longer than
  \<^verbatim>\<open>NAME_MAX\<close> and must be an entry of the directory.
\<close>

fun walk :: "(string list \<Rightarrow> node option) \<Rightarrow> string list \<Rightarrow> string list \<Rightarrow> errno + string list" where
  "walk ns cur [] = Inr cur"
| "walk ns cur (e # es) =
     (case ns cur of
        None \<Rightarrow> Inl ENOENT
      | Some n \<Rightarrow>
          (case n of
             RegularFile p b \<Rightarrow> Inl ENOTDIR
           | Special p \<Rightarrow> Inl ENOTDIR
           | Directory p \<Rightarrow>
               if e = '''' then walk ns cur es
               else if \<not> may_search p then Inl EACCES
               else if e = ''.'' then walk ns cur es
               else if e = ''..'' then walk ns (butlast cur) es
               else if NAME_MAX < length e then Inl ENAMETOOLONG
               else if ns (cur @ [e]) = None then Inl ENOENT
               else walk ns (cur @ [e]) es))"

definition start_dir :: "filesystem \<Rightarrow> string \<Rightarrow> string list" where
  "start_dir fs path = (if hd path = CHR ''/'' then [] else cwd fs)"

text \<open>
  Before any resolution: a path with a zero byte is refused when it is handed to the
  system call, the empty path names nothing, and a path of \<^verbatim>\<open>PATH_MAX\<close> bytes or more
  is too long.
\<close>

definition path_check :: "string \<Rightarrow> errno option" where
  "path_check path =
     (if CHR 0x00 \<in> set path then Some EINVAL
      else if path = '''' then Some ENOENT
      else if PATH_MAX \<le> length path then Some ENAMETOOLONG
      else None)"

definition resolve :: "filesystem \<Rightarrow> string \<Rightarrow> errno + string list" where
  "resolve fs path =
     (case path_check path of
        Some e \<Rightarrow> Inl e
      | None \<Rightarrow> walk (nodes fs) (start_dir fs path) (strings_Split path (CHR ''/'')))"

text \<open>
  The system calls that make a node resolve the path up to its last element, which is
  the last element that is not empty; \<open>proper_elems\<close> are the elements without the
  empty ones at the end.
\<close>

definition proper_elems :: "string \<Rightarrow> string list" where
  "proper_elems path = rev (dropWhile (\<lambda>e. e = '''') (rev (strings_Split path (CHR ''/''))))"

definition all_access :: perm where
  "all_access = \<lparr>may_read = True, may_write = True, may_search = True\<rparr>"

definition file_access :: perm where
  "file_access = \<lparr>may_read = True, may_write = True, may_search = False\<rparr>"

text \<open>
  \<^verbatim>\<open>mkdir(2)\<close>: the path of the root, or one ending in \<^verbatim>\<open>.\<close> or \<^verbatim>\<open>..\<close>, exists already;
  so does any node of that name, also when the path ends in a separator; making the
  entry needs the parent directory to be writable. The new directory is the creator's
  (the mode \<^verbatim>\<open>0777\<close> less a file mode creation mask that leaves the owner its rights).
\<close>

definition sys_mkdir :: "filesystem \<Rightarrow> string \<Rightarrow> errno + filesystem" where
  "sys_mkdir fs path =
     (if path_check path \<noteq> None then Inl (the (path_check path))
      else if proper_elems path = [] then
        (case walk (nodes fs) (start_dir fs path) (strings_Split path (CHR ''/'')) of
           Inl e \<Rightarrow> Inl e
         | Inr k \<Rightarrow> Inl EEXIST)
      else
        (case walk (nodes fs) (start_dir fs path) (butlast (proper_elems path)) of
           Inl e \<Rightarrow> Inl e
         | Inr d \<Rightarrow>
             (case nodes fs d of
                None \<Rightarrow> Inl ENOENT
              | Some n \<Rightarrow>
                  (case n of
                     RegularFile p b \<Rightarrow> Inl ENOTDIR
                   | Special p \<Rightarrow> Inl ENOTDIR
                   | Directory p \<Rightarrow>
                       if \<not> may_search p then Inl EACCES
                       else if last (proper_elems path) = ''.'' \<or> last (proper_elems path) = ''..''
                         then Inl EEXIST
                       else if NAME_MAX < length (last (proper_elems path)) then Inl ENAMETOOLONG
                       else if nodes fs (d @ [last (proper_elems path)]) \<noteq> None then Inl EEXIST
                       else if \<not> may_write p then Inl EACCES
                       else Inr (fs\<lparr>nodes := (nodes fs)(d @ [last (proper_elems path)] \<mapsto>
                                                  Directory all_access)\<rparr>)))))"

text \<open>
  \<^verbatim>\<open>open(2)\<close> with \<^verbatim>\<open>O_RDWR|O_CREAT|O_TRUNC\<close>, as \<^verbatim>\<open>os.Create\<close> calls it. It refuses the
  root, a path ending in \<^verbatim>\<open>.\<close> or \<^verbatim>\<open>..\<close>, a path ending in a separator and a
  directory; an existing file must be readable and writable and is emptied; a new
  file needs the parent directory to be writable. The result is the file system and
  the node that is open.
\<close>

definition sys_open_create :: "filesystem \<Rightarrow> string \<Rightarrow> errno + (filesystem \<times> string list)" where
  "sys_open_create fs path =
     (if path_check path \<noteq> None then Inl (the (path_check path))
      else if proper_elems path = [] then
        (case walk (nodes fs) (start_dir fs path) (strings_Split path (CHR ''/'')) of
           Inl e \<Rightarrow> Inl e
         | Inr k \<Rightarrow> Inl EISDIR)
      else
        (case walk (nodes fs) (start_dir fs path) (butlast (proper_elems path)) of
           Inl e \<Rightarrow> Inl e
         | Inr d \<Rightarrow>
             (case nodes fs d of
                None \<Rightarrow> Inl ENOENT
              | Some n \<Rightarrow>
                  (case n of
                     RegularFile p b \<Rightarrow> Inl ENOTDIR
                   | Special p \<Rightarrow> Inl ENOTDIR
                   | Directory p \<Rightarrow>
                       if \<not> may_search p then Inl EACCES
                       else if last (proper_elems path) = ''.'' \<or> last (proper_elems path) = ''..''
                         then Inl EISDIR
                       else if proper_elems path \<noteq> strings_Split path (CHR ''/'') then Inl EISDIR
                       else if NAME_MAX < length (last (proper_elems path)) then Inl ENAMETOOLONG
                       else
                         (case nodes fs (d @ [last (proper_elems path)]) of
                            None \<Rightarrow>
                              if \<not> may_write p then Inl EACCES
                              else Inr (fs\<lparr>nodes := (nodes fs)(d @ [last (proper_elems path)] \<mapsto>
                                                        RegularFile file_access '''')\<rparr>,
                                        d @ [last (proper_elems path)])
                          | Some m \<Rightarrow>
                              (case m of
                                 Directory q \<Rightarrow> Inl EISDIR
                               | RegularFile q b \<Rightarrow>
                                   if \<not> (may_read q \<and> may_write q) then Inl EACCES
                                   else Inr (fs\<lparr>nodes := (nodes fs)(d @ [last (proper_elems path)] \<mapsto>
                                                             RegularFile q '''')\<rparr>,
                                             d @ [last (proper_elems path)])
                               | Special q \<Rightarrow>
                                   if \<not> (may_read q \<and> may_write q) then Inl EACCES
                                   else Inr (fs, d @ [last (proper_elems path)])))))))"

subsection \<open>Package os\<close>

text \<open>
  \<^verbatim>\<open>os.Stat\<close> returns the node a path resolves to, \<^verbatim>\<open>os.Open\<close> opens it for reading,
  which needs it to be readable. Their errors, and those of \<^verbatim>\<open>os.Mkdir\<close> and
  \<^verbatim>\<open>os.Create\<close>, are path errors with the operation and the path as it was passed.
\<close>

definition IsRegular :: "node \<Rightarrow> bool" where
  "IsRegular n = (case n of RegularFile p b \<Rightarrow> True | Directory p \<Rightarrow> False | Special p \<Rightarrow> False)"

definition IsDir :: "node \<Rightarrow> bool" where
  "IsDir n = (case n of RegularFile p b \<Rightarrow> False | Directory p \<Rightarrow> True | Special p \<Rightarrow> False)"

definition node_perm :: "node \<Rightarrow> perm" where
  "node_perm n = (case n of RegularFile p b \<Rightarrow> p | Directory p \<Rightarrow> p | Special p \<Rightarrow> p)"

definition os_Stat :: "filesystem \<Rightarrow> string \<Rightarrow> error + node" where
  "os_Stat fs path =
     (case resolve fs path of
        Inl e \<Rightarrow> Inl (PathError ''stat'' path e)
      | Inr k \<Rightarrow>
          (case nodes fs k of
             None \<Rightarrow> Inl (PathError ''stat'' path ENOENT)
           | Some n \<Rightarrow> Inr n))"

definition os_Open :: "filesystem \<Rightarrow> string \<Rightarrow> error + os_File" where
  "os_Open fs path =
     (case resolve fs path of
        Inl e \<Rightarrow> Inl (PathError ''open'' path e)
      | Inr k \<Rightarrow>
          (case nodes fs k of
             None \<Rightarrow> Inl (PathError ''open'' path ENOENT)
           | Some n \<Rightarrow>
               if may_read (node_perm n) then Inr \<lparr>file_name = path, file_node = k\<rparr>
               else Inl (PathError ''open'' path EACCES)))"

definition os_Mkdir :: "filesystem \<Rightarrow> string \<Rightarrow> error + filesystem" where
  "os_Mkdir fs path =
     (case sys_mkdir fs path of
        Inl e \<Rightarrow> Inl (PathError ''mkdir'' path e)
      | Inr fs1 \<Rightarrow> Inr fs1)"

definition os_Create :: "filesystem \<Rightarrow> string \<Rightarrow> error + (filesystem \<times> os_File)" where
  "os_Create fs path =
     (case sys_open_create fs path of
        Inl e \<Rightarrow> Inl (PathError ''open'' path e)
      | Inr (fs1, k) \<Rightarrow> Inr (fs1, \<lparr>file_name = path, file_node = k\<rparr>))"

text \<open>
  \<^verbatim>\<open>os.MkdirAll\<close> (Go 1.22 and later): a path that \<^verbatim>\<open>os.Stat\<close> finds must be a
  directory. Otherwise the parent is made first: the path without its trailing
  separators and without its last element, if that is not empty; then the path
  itself. When making it fails, a directory that is there after all is no error. The
  directories that were made stay when a later step fails.
\<close>

definition parent_path :: "string \<Rightarrow> string" where
  "parent_path path =
     strings_TrimRightFunc (strings_TrimRightFunc path (\<lambda>c. c = CHR ''/''))
       (\<lambda>c. c \<noteq> CHR ''/'')"

function os_MkdirAll :: "filesystem \<Rightarrow> string \<Rightarrow> error option \<times> filesystem" where
  "os_MkdirAll fs path =
     (case os_Stat fs path of
        Inr dir \<Rightarrow>
          if IsDir dir then (None, fs) else (Some (PathError ''mkdir'' path ENOTDIR), fs)
      | Inl err \<Rightarrow>
          (case (if parent_path path \<noteq> '''' then os_MkdirAll fs (parent_path path)
                 else (None, fs)) of
             (Some err1, fs1) \<Rightarrow> (Some err1, fs1)
           | (None, fs1) \<Rightarrow>
               (case os_Mkdir fs1 path of
                  Inr fs2 \<Rightarrow> (None, fs2)
                | Inl err2 \<Rightarrow>
                    (case os_Stat fs1 path of
                       Inl err3 \<Rightarrow> (Some err2, fs1)
                     | Inr dir \<Rightarrow> if IsDir dir then (None, fs1) else (Some err2, fs1)))))"
  by pat_completeness auto
termination
proof (relation "measure (\<lambda>(fs, path). length path)")
  show "wf (measure (\<lambda>(fs, path). length path))" by simp
next
  fix fs :: filesystem and path :: string and e :: error
  assume ne: "parent_path path \<noteq> ''''"
  have shorter:
    "length (dropWhile (\<lambda>c. c \<noteq> CHR ''/'') (dropWhile (\<lambda>c. c = CHR ''/'') xs)) < length xs"
    if "xs \<noteq> []" for xs :: string
  proof (cases xs)
    case Nil
    with that show ?thesis by simp
  next
    case (Cons x ys)
    have a: "length (dropWhile (\<lambda>c. c \<noteq> CHR ''/'') zs) \<le> length zs" for zs :: string
      by (rule length_dropWhile_le)
    have b: "length (dropWhile (\<lambda>c. c = CHR ''/'') ys) \<le> length ys"
      by (rule length_dropWhile_le)
    show ?thesis
    proof (cases "x = CHR ''/''")
      case True
      with Cons a [of "dropWhile (\<lambda>c. c = CHR ''/'') ys"] b show ?thesis by simp
    next
      case False
      with Cons a [of ys] show ?thesis by simp
    qed
  qed
  from ne have r: "rev path \<noteq> []"
    by (auto simp: parent_path_def strings_TrimRightFunc_def)
  have "length (parent_path path) =
        length (dropWhile (\<lambda>c. c \<noteq> CHR ''/'') (dropWhile (\<lambda>c. c = CHR ''/'') (rev path)))"
    by (simp add: parent_path_def strings_TrimRightFunc_def)
  also have "\<dots> < length (rev path)"
    using r by (rule shorter)
  finally have "length (parent_path path) < length path" by simp
  then show "((fs, parent_path path), (fs, path)) \<in> measure (\<lambda>(fs, path). length path)"
    by simp
qed

text \<open>
  \<^verbatim>\<open>io.Copy\<close> from one open file to another reads what the source holds when the copy
  runs and writes it to the destination. Open files are nodes, so a destination that
  is the source has been emptied by \<^verbatim>\<open>os.Create\<close> before anything is read. The source
  is a regular file wherever \<^verbatim>\<open>copyFile\<close> calls it; a directory cannot be read, and
  from a special node nothing is read.
\<close>

definition io_Copy ::
  "filesystem \<Rightarrow> os_File \<Rightarrow> os_File \<Rightarrow> (nat \<times> error option) \<times> filesystem" where
  "io_Copy fs dst src =
     (case nodes fs (file_node src) of
        None \<Rightarrow> ((0, None), fs)
      | Some n \<Rightarrow>
          (case n of
             Directory p \<Rightarrow> ((0, Some (PathError ''read'' (file_name src) EISDIR)), fs)
           | Special p \<Rightarrow> ((0, None), fs)
           | RegularFile p b \<Rightarrow>
               ((length b, None),
                (case nodes fs (file_node dst) of
                   None \<Rightarrow> fs
                 | Some m \<Rightarrow>
                     (case m of
                        RegularFile q old \<Rightarrow>
                          fs\<lparr>nodes := (nodes fs)(file_node dst \<mapsto> RegularFile q b)\<rparr>
                      | Directory q \<Rightarrow> fs
                      | Special q \<Rightarrow> fs)))))"

subsection \<open>The image cache\<close>

definition pathExists :: "filesystem \<Rightarrow> string \<Rightarrow> bool \<times> error option" where
  "pathExists fs path =
     (case os_Stat fs path of
        Inr n \<Rightarrow> (True, None)
      | Inl err \<Rightarrow> if os_IsNotExist err then (False, None) else (False, Some err))"

definition copyFile :: "filesystem \<Rightarrow> string \<Rightarrow> string \<Rightarrow> (nat \<times> error option) \<times> filesystem" where
  "copyFile fs src dst =
     (case os_Stat fs src of
        Inl err \<Rightarrow> ((0, Some err), fs)
      | Inr sourceFileStat \<Rightarrow>
          if \<not> IsRegular sourceFileStat
          then ((0, Some (errorString (src @ '' is not a regular file''))), fs)
          else
            (case os_Open fs src of
               Inl err \<Rightarrow> ((0, Some err), fs)
             | Inr source \<Rightarrow>
                 (case os_Create fs dst of
                    Inl err \<Rightarrow> ((0, Some err), fs)
                  | Inr (fs1, destination) \<Rightarrow> io_Copy fs1 destination source)))"

definition focus_or_all :: "renderOpts \<Rightarrow> string" where
  "focus_or_all ro = (if focus ro = '''' then ''all'' else focus ro)"

definition FindCachedImg :: "Analysis \<Rightarrow> filesystem \<Rightarrow> panic + string" where
  "FindCachedImg a fs =
     (case opts a of
        None \<Rightarrow> Inl NilDereference
      | Some ro \<Rightarrow>
          if cacheDir ro = '''' \<or> refresh ro then Inr ''''
          else
            (let focusFilePath = focus_or_all ro @ ''.'' @ outputFormat a;
                 absFilePath = filepath_Join [cacheDir ro, focusFilePath]
             in (case pathExists fs absFilePath of
                   (exists, Some err) \<Rightarrow> Inr ''''
                 | (exists, None) \<Rightarrow> if \<not> exists then Inr '''' else Inr absFilePath)))"

definition CacheImg :: "Analysis \<Rightarrow> string \<Rightarrow> filesystem \<Rightarrow> (panic + error option) \<times> filesystem" where
  "CacheImg a img fs =
     (case opts a of
        None \<Rightarrow> (Inl NilDereference, fs)
      | Some ro \<Rightarrow>
          if cacheDir ro = '''' \<or> img = '''' then (Inr None, fs)
          else
            (let absCacheDirPrefix = filepath_Join [cacheDir ro, focus_or_all ro];
                 absCacheDirPath =
                   strings_TrimRightFunc absCacheDirPrefix
                     (\<lambda>r. r \<noteq> CHR 0x5C \<and> r \<noteq> CHR ''/'')
             in (case os_MkdirAll fs absCacheDirPath of
                   (Some err, fs1) \<Rightarrow> (Inr (Some err), fs1)
                 | (None, fs1) \<Rightarrow>
                     (let absFilePath = absCacheDirPrefix @ ''.'' @ outputFormat a
                      in (case copyFile fs1 img absFilePath of
                            ((n, Some err), fs2) \<Rightarrow> (Inr (Some err), fs2)
                          | ((n, None), fs2) \<Rightarrow> (Inr None, fs2))))))"

section \<open>Building the analysis\<close>

text \<open>The loop of \<^verbatim>\<open>mainPackages\<close>, with the slice \<open>mains\<close> built so far.\<close>

fun mains_loop :: "ssa_Package option list \<Rightarrow> ssa_Package list \<Rightarrow> ssa_Package list" where
  "mains_loop [] mains = mains"
| "mains_loop (None # ps) mains = mains_loop ps mains"
| "mains_loop (Some p # ps) mains =
     (if Name (Pkg p) = ''main'' \<and> Func p ''main'' \<noteq> None
      then mains_loop ps (mains @ [p])
      else mains_loop ps mains)"

definition mainPackages :: "ssa_Package option list \<Rightarrow> ssa_Package list \<times> error option" where
  "mainPackages ps =
     (let mains = mains_loop ps [] in
      if length mains = 0 then ([], Some (errorString ''no main packages''))
      else (mains, None))"

definition getBuildFlagTags :: "string list \<Rightarrow> string" where
  "getBuildFlagTags buildTags =
     (if 0 < length buildTags then ''-tags='' @ strings_Join buildTags '','' else '''')"

definition getBuildFlags :: "string list \<Rightarrow> string list" where
  "getBuildFlags buildTags =
     (let buildFlagTags = getBuildFlagTags buildTags in
      if length buildFlagTags = 0 then [] else [buildFlagTags])"

text \<open>
  The external tool chain \<^verbatim>\<open>DoAnalysis\<close> calls, as parameters: loading the packages
  (given the test flag, the directory, the build flags and the patterns), counting their
  errors, building the SSA program with the packages of the initial ones, and the three
  call graph constructions. \<^verbatim>\<open>build.Default.BuildTags\<close> is a global, here an argument.
\<close>

datatype packages_Package = LoadedPackage string

record toolchain =
  packages_Load :: "bool \<Rightarrow> string \<Rightarrow> string list \<Rightarrow> string list \<Rightarrow> error + packages_Package list"
  packages_PrintErrors :: "packages_Package list \<Rightarrow> nat"
  ssautil_AllPackages :: "packages_Package list \<Rightarrow> ssa_Program \<times> ssa_Package list"
  static_CallGraph :: "ssa_Program \<Rightarrow> callgraph_Graph"
  cha_CallGraph :: "ssa_Program \<Rightarrow> callgraph_Graph"
  rta_Analyze :: "ssa_Function option list \<Rightarrow> bool \<Rightarrow> callgraph_Graph"

definition store_analysis ::
  "Analysis \<Rightarrow> ssa_Program \<Rightarrow> ssa_Package list \<Rightarrow> ssa_Package option \<Rightarrow> callgraph_Graph \<Rightarrow> Analysis" where
  "store_analysis a prg ps mainp graph =
     a\<lparr>prog := Some prg, pkgs := ps, mainPkg := mainp, callgraph := Some graph\<rparr>"

definition DoAnalysis ::
  "toolchain \<Rightarrow> string list \<Rightarrow> Analysis \<Rightarrow> CallGraphType \<Rightarrow> string \<Rightarrow> bool \<Rightarrow> string list \<Rightarrow>
   (panic + error option) \<times> Analysis" where
  "DoAnalysis tc buildTags a algo_arg dir tests args =
     (case packages_Load tc tests dir (getBuildFlags buildTags) args of
        Inl err \<Rightarrow> (Inr (Some err), a)
      | Inr initial \<Rightarrow>
          if 0 < packages_PrintErrors tc initial
          then (Inr (Some (errorString ''packages contain errors'')), a)
          else
            (case ssautil_AllPackages tc initial of
               (prg, ps) \<Rightarrow>
                 if algo_arg = CallGraphTypeStatic
                   then (Inr None, store_analysis a prg ps None (static_CallGraph tc prg))
                 else if algo_arg = CallGraphTypeCha
                   then (Inr None, store_analysis a prg ps None (cha_CallGraph tc prg))
                 else if algo_arg = CallGraphTypeRta then
                   (case mainPackages (AllPackages prg) of
                      (mains, Some err) \<Rightarrow> (Inr (Some err), a)
                    | (mains, None) \<Rightarrow>
                        (case mains of
                           [] \<Rightarrow> (Inl (IndexOutOfRange 0 0), a)
                         | m # ms \<Rightarrow>
                             (Inr None,
                              store_analysis a prg ps (Some m)
                                (rta_Analyze tc (map (\<lambda>p. Func p ''main'') mains) True))))
                 else
                   (case opts a of
                      None \<Rightarrow> (Inl NilDereference, a)
                    | Some ro \<Rightarrow>
                        (Inr (Some (errorString (''invalid call graph type: '' @ algo ro))), a))))"

section \<open>Render\<close>

text \<open>
  \<^verbatim>\<open>output.PrintOutput\<close> is a parameter; it gets the twelve arguments the source passes.
  \<^verbatim>\<open>Render\<close> returns what it wrote to the standard error stream and its result. The
  variable \<^verbatim>\<open>err\<close> is still nil where the two messages \<^verbatim>\<open>focus failed: %v\<close> are built,
  which prints as \<^verbatim>\<open><nil>\<close>. Log lines are not part of the model.
\<close>

record output_args =
  arg_prog :: "ssa_Program option"
  arg_mainPkg :: "ssa_Package option"
  arg_callgraph :: "callgraph_Graph option"
  arg_focusPkg :: "types_Package option"
  arg_limit :: "string list"
  arg_ignore :: "string list"
  arg_include :: "string list"
  arg_group :: "string list"
  arg_nostd :: bool
  arg_nointer :: bool
  arg_minlen :: nat
  arg_options :: "(string \<times> string) list"

definition print_output ::
  "(output_args \<Rightarrow> error + string) \<Rightarrow> Analysis \<Rightarrow> renderOpts \<Rightarrow> types_Package option \<Rightarrow> nat \<Rightarrow>
   (string \<times> string) list \<Rightarrow> error + string" where
  "print_output PrintOutput a ro focusPkg minlen options =
     (case PrintOutput
             \<lparr>arg_prog = prog a, arg_mainPkg = mainPkg a, arg_callgraph = callgraph a,
              arg_focusPkg = focusPkg, arg_limit = limit ro, arg_ignore = ignore ro,
              arg_include = include' ro, arg_group = group ro, arg_nostd = nostd ro,
              arg_nointer = nointer ro, arg_minlen = minlen, arg_options = options\<rparr> of
        Inl err \<Rightarrow> Inl (errorString (''processing failed: '' @ Error err))
      | Inr dot \<Rightarrow> Inr dot)"

fun found_loop :: "string \<Rightarrow> ssa_Package list \<Rightarrow> string list \<Rightarrow> string list" where
  "found_loop name [] foundPaths = foundPaths"
| "found_loop name (p # ps) foundPaths =
     (if Name (Pkg p) = name then found_loop name ps (foundPaths @ [Path (Pkg p)])
      else found_loop name ps foundPaths)"

fun report_loop :: "string list \<Rightarrow> string" where
  "report_loop [] = ''''"
| "report_loop (p # ps) = '' - '' @ p @ [CHR 0x0A] @ report_loop ps"

definition Render ::
  "(output_args \<Rightarrow> error + string) \<Rightarrow> Analysis \<Rightarrow> nat \<Rightarrow> (string \<times> string) list \<Rightarrow>
   panic + (string \<times> (error + string))" where
  "Render PrintOutput a minlen options =
     (case opts a of
        None \<Rightarrow> Inl NilDereference
      | Some ro \<Rightarrow>
          if focus ro \<noteq> '''' then
            (case prog a of
               None \<Rightarrow> Inl NilDereference
             | Some prg \<Rightarrow>
                 (case ImportedPackage prg (focus ro) of
                    Some ssaPkg \<Rightarrow>
                      Inr ('''', print_output PrintOutput a ro (Some (Pkg ssaPkg)) minlen options)
                  | None \<Rightarrow>
                      if strings_Contains (focus ro) ''/''
                      then Inr ('''', Inl (errorString ''focus failed: <nil>''))
                      else
                        (let foundPaths = found_loop (focus ro) (pkgs a) [] in
                         if length foundPaths = 0 then
                           Inr ('''',
                                Inl (errorString
                                  (''focus failed, could not find package: '' @ focus ro)))
                         else if 1 < length foundPaths then
                           Inr (report_loop foundPaths,
                                Inl (errorString
                                  (''focus failed, found multiple packages with name: ''
                                   @ focus ro)))
                         else
                           (case ImportedPackage prg (foundPaths ! 0) of
                              None \<Rightarrow> Inr ('''', Inl (errorString ''focus failed: <nil>''))
                            | Some ssaPkg \<Rightarrow>
                                Inr ('''',
                                     print_output PrintOutput a ro (Some (Pkg ssaPkg))
                                       minlen options)))))
          else Inr ('''', print_output PrintOutput a ro None minlen options))"

section \<open>The entry point\<close>

subsection \<open>Package flag\<close>

text \<open>
  A flag set has its defined flags (\<^verbatim>\<open>formal\<close>), each with its kind and the text of its
  current value, and the arguments left after the flags. Boolean flags need no argument;
  their values are read by \<^verbatim>\<open>strconv.ParseBool\<close>. How the text of a number or of the
  build tags is checked is a parameter \<open>conv\<close>, which gives the text stored or nothing
  when the value is refused.
\<close>

datatype flag_kind = BoolFlag | StringFlag | UintFlag | Float64Flag | TagsFlag

record Flag =
  Kind :: flag_kind
  Value :: string

record FlagSet =
  formal :: "string \<Rightarrow> Flag option"
  flag_args :: "string list"

datatype flag_error =
    BadFlagSyntax string
  | NotDefined string
  | NeedsArgument string
  | InvalidValue string string
  | ErrHelp

definition strconv_ParseBool :: "string \<Rightarrow> bool option" where
  "strconv_ParseBool s =
     (if s \<in> set [''1'', ''t'', ''T'', ''TRUE'', ''true'', ''True''] then Some True
      else if s \<in> set [''0'', ''f'', ''F'', ''FALSE'', ''false'', ''False''] then Some False
      else None)"

definition FormatBool :: "bool \<Rightarrow> string" where
  "FormatBool b = (if b then ''true'' else ''false'')"

definition define_flag :: "FlagSet \<Rightarrow> string \<Rightarrow> flag_kind \<Rightarrow> string \<Rightarrow> FlagSet" where
  "define_flag f name kind dflt = f\<lparr>formal := (formal f)(name \<mapsto> \<lparr>Kind = kind, Value = dflt\<rparr>)\<rparr>"

definition set_flag :: "FlagSet \<Rightarrow> string \<Rightarrow> Flag \<Rightarrow> string \<Rightarrow> string list \<Rightarrow> FlagSet" where
  "set_flag f name flg v rest = f\<lparr>formal := (formal f)(name \<mapsto> flg\<lparr>Value := v\<rparr>), flag_args := rest\<rparr>"

text \<open>The name of a flag ends at the first \<^verbatim>\<open>=\<close> after its first byte; the value follows.\<close>

definition flag_name :: "string \<Rightarrow> string" where
  "flag_name name = hd name # takeWhile (\<lambda>c. c \<noteq> CHR ''='') (tl name)"

definition flag_hasValue :: "string \<Rightarrow> bool" where
  "flag_hasValue name = (CHR ''='' \<in> set (tl name))"

definition flag_value :: "string \<Rightarrow> string" where
  "flag_value name = tl (dropWhile (\<lambda>c. c \<noteq> CHR ''='') (tl name))"

text \<open>
  \<^verbatim>\<open>Parse\<close> with its \<^verbatim>\<open>parseOne\<close>: one equation per argument consumed. It stops at the
  first argument that is not a flag and after \<^verbatim>\<open>--\<close>, and fails on a flag that is not
  defined at the time of the call.
\<close>

fun Parse ::
  "(flag_kind \<Rightarrow> string \<Rightarrow> string option) \<Rightarrow> FlagSet \<Rightarrow> string list \<Rightarrow> flag_error + FlagSet" where
  "Parse conv f [] = Inr (f\<lparr>flag_args := []\<rparr>)"
| "Parse conv f (s # rest) =
     (if length s < 2 \<or> hd s \<noteq> CHR ''-'' then Inr (f\<lparr>flag_args := s # rest\<rparr>)
      else if s = ''--'' then Inr (f\<lparr>flag_args := rest\<rparr>)
      else
        (let name = (if s ! 1 = CHR ''-'' then drop 2 s else drop 1 s) in
         if length name = 0 \<or> hd name = CHR ''-'' \<or> hd name = CHR ''=''
         then Inl (BadFlagSyntax s)
         else
           (case formal f (flag_name name) of
              None \<Rightarrow>
                if flag_name name = ''help'' \<or> flag_name name = ''h'' then Inl ErrHelp
                else Inl (NotDefined (flag_name name))
            | Some flg \<Rightarrow>
                if Kind flg = BoolFlag then
                  (if flag_hasValue name then
                     (case strconv_ParseBool (flag_value name) of
                        None \<Rightarrow> Inl (InvalidValue (flag_value name) (flag_name name))
                      | Some b \<Rightarrow>
                          Parse conv (set_flag f (flag_name name) flg (FormatBool b) rest) rest)
                   else Parse conv (set_flag f (flag_name name) flg ''true'' rest) rest)
                else if flag_hasValue name then
                  (case (if Kind flg = StringFlag then Some (flag_value name)
                         else conv (Kind flg) (flag_value name)) of
                     None \<Rightarrow> Inl (InvalidValue (flag_value name) (flag_name name))
                   | Some v \<Rightarrow> Parse conv (set_flag f (flag_name name) flg v rest) rest)
                else
                  (case rest of
                     [] \<Rightarrow> Inl (NeedsArgument (flag_name name))
                   | x # rest' \<Rightarrow>
                       (case (if Kind flg = StringFlag then Some x else conv (Kind flg) x) of
                          None \<Rightarrow> Inl (InvalidValue x (flag_name name))
                        | Some v \<Rightarrow>
                            Parse conv (set_flag f (flag_name name) flg v rest') rest')))))"

definition flag_String :: "FlagSet \<Rightarrow> string \<Rightarrow> string" where
  "flag_String f name = (case formal f name of None \<Rightarrow> '''' | Some flg \<Rightarrow> Value flg)"

definition flag_Bool :: "FlagSet \<Rightarrow> string \<Rightarrow> bool" where
  "flag_Bool f name = (flag_String f name = ''true'')"

definition NArg :: "FlagSet \<Rightarrow> nat" where
  "NArg f = length (flag_args f)"

subsection \<open>main\<close>

definition version :: string where
  "version = ''v0.8.0''"

definition commit :: string where
  "commit = ''(unknown)''"

definition Version :: string where
  "Version = version @ '' built from git '' @ commit"

text \<open>
  The flags of the package-level \<^verbatim>\<open>var\<close> block are defined before \<^verbatim>\<open>main\<close> runs; \<^verbatim>\<open>main\<close>
  defines the flag \<^verbatim>\<open>tags\<close> and the five layout flags, calls \<^verbatim>\<open>flag.Parse\<close>, and only
  then defines \<^verbatim>\<open>tests\<close>, \<^verbatim>\<open>http\<close>, \<^verbatim>\<open>skipbrowser\<close>, \<^verbatim>\<open>file\<close>, \<^verbatim>\<open>algo\<close> and \<^verbatim>\<open>version\<close>.
\<close>

definition package_flags :: FlagSet where
  "package_flags =
     define_flag (define_flag (define_flag (define_flag (define_flag (define_flag
     (define_flag (define_flag (define_flag (define_flag (define_flag
       \<lparr>formal = Map.empty, flag_args = []\<rparr>
       ''focus'' StringFlag ''main'')
       ''group'' StringFlag ''pkg'')
       ''limit'' StringFlag '''')
       ''ignore'' StringFlag '''')
       ''include'' StringFlag '''')
       ''nostd'' BoolFlag ''false'')
       ''nointer'' BoolFlag ''false'')
       ''cacheDir'' StringFlag '''')
       ''graphviz'' BoolFlag ''false'')
       ''debug'' BoolFlag ''true'')
       ''format'' StringFlag ''svg''"

definition flags_at_Parse :: FlagSet where
  "flags_at_Parse =
     define_flag (define_flag (define_flag (define_flag (define_flag (define_flag
       package_flags
       ''tags'' TagsFlag '''')
       ''minlen'' UintFlag ''2'')
       ''nodesep'' Float64Flag ''0.35'')
       ''nodeshape'' StringFlag ''box'')
       ''nodestyle'' StringFlag ''filled,rounded'')
       ''rankdir'' StringFlag ''LR''"

definition flags_after_Parse :: "FlagSet \<Rightarrow> FlagSet" where
  "flags_after_Parse f =
     define_flag (define_flag (define_flag (define_flag (define_flag (define_flag
       f
       ''tests'' BoolFlag ''false'')
       ''http'' StringFlag '':7878'')
       ''skipbrowser'' BoolFlag ''false'')
       ''file'' StringFlag '''')
       ''algo'' StringFlag ''cha'')
       ''version'' BoolFlag ''false''"

text \<open>
  How \<^verbatim>\<open>main\<close> goes on: it exits with a status (after a flag error, after printing the
  version, or after printing the usage), or it goes on to the analysis with the session
  it has set up, the algorithm, the test flag, the arguments and the output file. The
  model ends there: the analysis is \<^verbatim>\<open>DoAnalysis\<close>, and an empty output file starts the
  server.

  The session gets the minimum edge length and the five layout options. The text a flag
  holds is the text of its value as package \<^verbatim>\<open>flag\<close> prints it, which for the number
  \<^verbatim>\<open>minlen\<close> is its decimal numeral and is also what \<^verbatim>\<open>fmt.Sprint\<close> prints; \<open>decimal\<close>
  reads the number back.
\<close>

definition decimal :: "string \<Rightarrow> nat" where
  "decimal s = foldl (\<lambda>n c. 10 * n + (of_char c - 48)) 0 s"

datatype exit_cause = FlagError flag_error | PrintedVersion string | PrintedUsage

datatype main_outcome =
    Exit nat exit_cause
  | Analyse Analysis CallGraphType bool "string list" string

definition main :: "(flag_kind \<Rightarrow> string \<Rightarrow> string option) \<Rightarrow> string list \<Rightarrow> main_outcome" where
  "main conv argv =
     (case Parse conv flags_at_Parse argv of
        Inl err \<Rightarrow> if err = ErrHelp then Exit 0 (FlagError err) else Exit 2 (FlagError err)
      | Inr parsed \<Rightarrow>
          (let f = flags_after_Parse parsed in
           if flag_Bool f ''version'' then Exit 0 (PrintedVersion Version)
           else if NArg f \<noteq> 1 then Exit 2 PrintedUsage
           else
             Analyse
               ((OptsSetup (NewAnalysis (flag_String f ''file''))
                   (flag_String f ''cacheDir'') (flag_String f ''focus'')
                   (flag_String f ''group'') (flag_String f ''ignore'')
                   (flag_String f ''include'') (flag_String f ''limit'')
                   (flag_Bool f ''nointer'') False (flag_Bool f ''nostd'')
                   (flag_String f ''algo''))
                \<lparr>Minlen := decimal (flag_String f ''minlen''),
                  PrintOptions :=
                    [(''minlen'', flag_String f ''minlen''),
                     (''nodesep'', flag_String f ''nodesep''),
                     (''nodeshape'', flag_String f ''nodeshape''),
                     (''nodestyle'', flag_String f ''nodestyle''),
                     (''rankdir'', flag_String f ''rankdir'')]\<rparr>)
               (flag_String f ''algo'') (flag_Bool f ''tests'') (flag_args f)
               (flag_String f ''file'')))"

subsection \<open>The request handler\<close>

text \<open>
  What the handler writes: \<^verbatim>\<open>http.NotFound\<close>, \<^verbatim>\<open>http.Error\<close> with its body and status,
  \<^verbatim>\<open>http.ServeFile\<close> of a path, or a body written with status 200. The handler ends by
  responding, by a panic (which the HTTP server recovers from), or with the process
  terminated. \<^verbatim>\<open>dot.DotToImage\<close> is a parameter: it returns an image path or an error and
  may write files, or it terminates the process, as the embedded backend does when its
  clean-up fails. The flags \<^verbatim>\<open>graphviz\<close> and \<^verbatim>\<open>format\<close> are globals, here arguments.
\<close>

datatype http_response =
    http_NotFound
  | http_Error string nat
  | http_ServeFile string
  | http_Body string

datatype handler_outcome = Responded http_response | Panicked panic | ProcessExited

datatype dot_result = DotFatal | DotReturned "error + string" filesystem

definition StatusBadRequest :: nat where
  "StatusBadRequest = 400"

definition StatusInternalServerError :: nat where
  "StatusInternalServerError = 500"

definition handler ::
  "(output_args \<Rightarrow> error + string) \<Rightarrow>
   (bool \<Rightarrow> string \<Rightarrow> string \<Rightarrow> string \<Rightarrow> filesystem \<Rightarrow> dot_result) \<Rightarrow>
   bool \<Rightarrow> string \<Rightarrow> http_Request \<Rightarrow> Analysis option \<Rightarrow> filesystem \<Rightarrow>
   handler_outcome \<times> Analysis option \<times> filesystem" where
  "handler PrintOutput DotToImage graphvizFlag outputFormatFlag r ctx fs =
     (if URL_Path r \<noteq> ''/'' \<and> \<not> strings_HasSuffix (URL_Path r) ''.svg''
      then (Responded http_NotFound, ctx, fs)
      else
        (case ctx of
           None \<Rightarrow>
             (Responded (http_Error ''Object not found in context'' StatusInternalServerError),
              ctx, fs)
         | Some a \<Rightarrow>
        (case OverrideByHTTP a r of
           (Inl p, a1) \<Rightarrow> (Panicked p, Some a1, fs)
         | (Inr u, a1) \<Rightarrow>
        (case FindCachedImg a1 fs of
           Inl p \<Rightarrow> (Panicked p, Some a1, fs)
         | Inr img \<Rightarrow>
             if img \<noteq> '''' then (Responded (http_ServeFile img), Some a1, fs)
             else
        (case ProcessListArgs a1 of
           (Inl p, a2) \<Rightarrow> (Panicked p, Some a2, fs)
         | (Inr (Some e), a2) \<Rightarrow>
             (Responded (http_Error ''invalid parameters'' StatusBadRequest), Some a2, fs)
         | (Inr None, a2) \<Rightarrow>
        (case Render PrintOutput a2 (Minlen a2) (PrintOptions a2) of
           Inl p \<Rightarrow> (Panicked p, Some a2, fs)
         | Inr (stderr, Inl err) \<Rightarrow>
             (Responded (http_Error (Error err) StatusInternalServerError), Some a2, fs)
         | Inr (stderr, Inr output) \<Rightarrow>
             if FormValue r ''format'' = ''dot''
             then (Responded (http_Body output), Some a2, fs)
             else
        (case DotToImage graphvizFlag '''' outputFormatFlag output fs of
           DotFatal \<Rightarrow> (ProcessExited, Some a2, fs)
         | DotReturned (Inl err) fs1 \<Rightarrow>
             (Responded (http_Error (Error err) StatusInternalServerError), Some a2, fs1)
         | DotReturned (Inr img) fs1 \<Rightarrow>
        (case CacheImg a2 img fs1 of
           (Inl p, fs2) \<Rightarrow> (Panicked p, Some a2, fs2)
         | (Inr (Some err), fs2) \<Rightarrow>
             (Responded (http_Error (''cache img error: '' @ Error err) StatusBadRequest),
              Some a2, fs2)
         | (Inr None, fs2) \<Rightarrow> (Responded (http_ServeFile img), Some a2, fs2)))))))))"

section \<open>Notions used in the statements\<close>

text \<open>
  For stating what \<^verbatim>\<open>ProcessListArgs\<close> computes: the tokens of a comma-separated
  string (trimmed, blank ones left out), and the two grouping values.
\<close>

definition nonblank_tokens :: "string \<Rightarrow> string list" where
  "nonblank_tokens s =
     filter (\<lambda>t. t \<noteq> '''') (map strings_TrimSpace (strings_Split s (CHR '','')))"

definition group_value :: "string \<Rightarrow> bool" where
  "group_value t = (t = ''pkg'' \<or> t = ''type'')"

text \<open>
  For stating what \<^verbatim>\<open>Render\<close> finds: the import paths of the loaded packages with a
  given name, in the order of the packages.
\<close>

definition paths_named :: "string \<Rightarrow> ssa_Package list \<Rightarrow> string list" where
  "paths_named name ps = map (\<lambda>p. Path (Pkg p)) (filter (\<lambda>p. Name (Pkg p) = name) ps)"

text \<open>
  For stating what \<^verbatim>\<open>mainPackages\<close> finds: a main package is named \<^verbatim>\<open>main\<close> and has a
  function \<^verbatim>\<open>main\<close>; the main packages of a list are those of its entries that are
  not nil, in order.
\<close>

definition is_main_package :: "ssa_Package \<Rightarrow> bool" where
  "is_main_package p = (Name (Pkg p) = ''main'' \<and> Func p ''main'' \<noteq> None)"

definition main_packages_of :: "ssa_Package option list \<Rightarrow> ssa_Package list" where
  "main_packages_of ps = filter is_main_package (List.map_filter (\<lambda>p. p) ps)"

text \<open>
  For stating where the cache looks: the path \<^verbatim>\<open><cacheDir>/<focusNameOrAll>.<format>\<close>
  of a session with its options, cleaned as \<^verbatim>\<open>filepath.Join\<close> cleans what it joins.
\<close>

definition cache_path :: "Analysis \<Rightarrow> renderOpts \<Rightarrow> string" where
  "cache_path a ro =
     filepath_Clean (cacheDir ro @ ''/'' @ focus_or_all ro @ ''.'' @ outputFormat a)"

text \<open>
  For stating where \<^verbatim>\<open>CacheImg\<close> writes: the path of the file it creates and the
  directory it makes first, as the source computes them.
\<close>

definition cache_target :: "Analysis \<Rightarrow> renderOpts \<Rightarrow> string" where
  "cache_target a ro = filepath_Join [cacheDir ro, focus_or_all ro] @ ''.'' @ outputFormat a"

definition cache_target_dir :: "renderOpts \<Rightarrow> string" where
  "cache_target_dir ro =
     strings_TrimRightFunc (filepath_Join [cacheDir ro, focus_or_all ro])
       (\<lambda>r. r \<noteq> CHR 0x5C \<and> r \<noteq> CHR ''/'')"

text \<open>
  The last element of a path: what follows its last separator, the whole path when it has
  no separator.
\<close>

definition last_element :: "string \<Rightarrow> string" where
  "last_element path = last (strings_Split path (CHR ''/''))"

section \<open>Properties of ProcessListArgs and OverrideByHTTP\<close>

lemma group_loop_eq:
  "group_loop gs acc grp =
     (let ts = filter (\<lambda>t. t \<noteq> '''') (map strings_TrimSpace gs);
          vp = takeWhile group_value ts
      in (if vp = ts then None else Some (errors_New ''invalid group option''),
          if vp = [] then grp else acc @ vp))"
  by (induction gs arbitrary: acc grp) (auto simp: Let_def group_value_def)

lemma group_loop_Split:
  "group_loop (strings_Split s (CHR '','')) acc grp =
     (if takeWhile group_value (nonblank_tokens s) = nonblank_tokens s then None
      else Some (errors_New ''invalid group option''),
      if takeWhile group_value (nonblank_tokens s) = [] then grp
      else acc @ takeWhile group_value (nonblank_tokens s))"
  by (simp add: group_loop_eq nonblank_tokens_def Let_def)

lemma paths_loop_eq:
  "paths_loop ps acc = acc @ filter (\<lambda>t. t \<noteq> '''') (map strings_TrimSpace ps)"
  by (induction ps arbitrary: acc) (auto simp: Let_def)

lemma split_paths_Cons: "split_paths (s # rest) = nonblank_tokens s"
  by (simp add: split_paths_def nonblank_tokens_def paths_loop_eq)

lemma split_paths_Nil: "split_paths [] = []"
  by (simp add: split_paths_def)

lemma nonblank_tokens_no_blank: "'''' \<notin> set (nonblank_tokens s)"
  by (simp add: nonblank_tokens_def)

lemma ProcessListArgs_eq:
  assumes "opts a = Some ro" and "group ro = s # rest"
  shows "ProcessListArgs a =
     (if list_all group_value (nonblank_tokens s) then
        (Inr None,
         a\<lparr>opts := Some
            (ro\<lparr>group := (if nonblank_tokens s = [] then group ro else nonblank_tokens s),
                ignore := split_paths (ignore ro),
                include' := split_paths (include' ro),
                limit := split_paths (limit ro)\<rparr>)\<rparr>)
      else
        (Inr (Some (errors_New ''invalid group option'')),
         a\<lparr>opts := Some
            (ro\<lparr>group := (if takeWhile group_value (nonblank_tokens s) = [] then group ro
                           else takeWhile group_value (nonblank_tokens s))\<rparr>)\<rparr>))"
proof (cases "list_all group_value (nonblank_tokens s)")
  case True
  then have tw: "takeWhile group_value (nonblank_tokens s) = nonblank_tokens s"
    by (simp add: list_all_iff)
  from True assms show ?thesis
    by (auto simp add: ProcessListArgs_def group_loop_Split tw list_all_iff)
next
  case False
  then have tw: "takeWhile group_value (nonblank_tokens s) \<noteq> nonblank_tokens s"
    by (simp add: list_all_iff)
  from False assms show ?thesis
    by (auto simp add: ProcessListArgs_def group_loop_Split tw list_all_iff)
qed

lemma tokens_pkg_bogus: "nonblank_tokens ''pkg,bogus'' = [''pkg'', ''bogus'']"
  by code_simp

lemma tokens_type_pkg: "nonblank_tokens '' type , pkg,'' = [''type'', ''pkg'']"
  by code_simp

lemma tokens_pkg: "nonblank_tokens ''pkg'' = [''pkg'']"
  by code_simp

lemma tokens_empty: "nonblank_tokens '''' = []"
  by code_simp

lemma tokens_blank: "nonblank_tokens '' , '' = []"
  by code_simp

lemma override_flags_lists:
  "group (override_flags ro r) = group ro"
  "limit (override_flags ro r) = limit ro"
  "ignore (override_flags ro r) = ignore ro"
  "include' (override_flags ro r) = include' ro"
  by (simp_all add: override_flags_def Let_def)

lemma override_flags_fields:
  "focus (override_flags ro r) =
     (if FormValue r ''f'' = ''all'' then ''''
      else if FormValue r ''f'' \<noteq> '''' then FormValue r ''f'' else focus ro)"
  "nostd (override_flags ro r) = (if FormValue r ''std'' \<noteq> '''' then False else nostd ro)"
  "nointer (override_flags ro r) = (if FormValue r ''nointer'' \<noteq> '''' then True else nointer ro)"
  "refresh (override_flags ro r) = (if FormValue r ''refresh'' \<noteq> '''' then True else refresh ro)"
  "cacheDir (override_flags ro r) = cacheDir ro"
  "algo (override_flags ro r) = algo ro"
  by (simp_all add: override_flags_def Let_def)

lemma OverrideByHTTP_ok:
  assumes "opts a = Some ro"
    and "group ro \<noteq> []" and "limit ro \<noteq> []" and "ignore ro \<noteq> []" and "include' ro \<noteq> []"
  shows "OverrideByHTTP a r =
     (Inr (),
      a\<lparr>opts := Some
         ((override_flags ro r)
            \<lparr>group := (if FormValue r ''group'' \<noteq> '''' then (group ro)[0 := FormValue r ''group'']
                       else group ro),
             limit := (if FormValue r ''limit'' \<noteq> '''' then (limit ro)[0 := FormValue r ''limit'']
                       else limit ro),
             ignore := (if FormValue r ''ignore'' \<noteq> '''' then (ignore ro)[0 := FormValue r ''ignore'']
                        else ignore ro),
             include' := (if FormValue r ''include'' \<noteq> ''''
                          then (include' ro)[0 := FormValue r ''include''] else include' ro)\<rparr>)\<rparr>)"
  using assms
  by (simp add: OverrideByHTTP_def override_group_def override_limit_def override_ignore_def
      override_include_def set_first_def override_flags_lists)

lemma OverrideByHTTP_panic_limit:
  assumes "opts a = Some ro" and "group ro \<noteq> []" and "limit ro = []"
    and "FormValue r ''limit'' \<noteq> ''''"
  shows "fst (OverrideByHTTP a r) = Inl (IndexOutOfRange 0 0)"
  using assms
  by (simp add: OverrideByHTTP_def override_group_def override_limit_def set_first_def
      override_flags_lists)

lemma OverrideByHTTP_panic_ignore:
  assumes "opts a = Some ro" and "group ro \<noteq> []" and "ignore ro = []"
    and "FormValue r ''ignore'' \<noteq> ''''"
  shows "fst (OverrideByHTTP a r) = Inl (IndexOutOfRange 0 0)"
  using assms
  by (simp add: OverrideByHTTP_def override_group_def override_limit_def override_ignore_def
      set_first_def override_flags_lists)

lemma OverrideByHTTP_panic_include:
  assumes "opts a = Some ro" and "group ro \<noteq> []" and "include' ro = []"
    and "FormValue r ''include'' \<noteq> ''''"
  shows "fst (OverrideByHTTP a r) = Inl (IndexOutOfRange 0 0)"
  using assms
  by (simp add: OverrideByHTTP_def override_group_def override_limit_def override_ignore_def
      override_include_def set_first_def override_flags_lists)

lemma list_update_first: "xs \<noteq> [] \<Longrightarrow> xs[0 := v] = v # tl xs"
  by (cases xs) simp_all

lemma ProcessListArgs_ok_state:
  assumes "opts a = Some ro" and "fst (ProcessListArgs a) = Inr None"
  shows "\<exists>g. g \<noteq> [] \<and>
           snd (ProcessListArgs a) =
             a\<lparr>opts := Some (ro\<lparr>group := g, ignore := split_paths (ignore ro),
                                 include' := split_paths (include' ro),
                                 limit := split_paths (limit ro)\<rparr>)\<rparr>"
proof (cases "group ro")
  case Nil
  with assms show ?thesis by (simp add: ProcessListArgs_def)
next
  case (Cons s rest)
  note eq = ProcessListArgs_eq [OF assms(1) Cons]
  show ?thesis
  proof (cases "list_all group_value (nonblank_tokens s)")
    case True
    with eq Cons show ?thesis by auto
  next
    case False
    with eq assms(2) show ?thesis by simp
  qed
qed

lemma handler_panics:
  assumes "URL_Path r = ''/'' \<or> strings_HasSuffix (URL_Path r) ''.svg''"
    and "fst (OverrideByHTTP a r) = Inl p"
  shows "fst (handler PrintOutput DotToImage gv fmt r (Some a) fs) = Panicked p"
  using assms by (cases "OverrideByHTTP a r") (auto simp: handler_def)

section \<open>Properties of Render\<close>

lemma found_loop_eq: "found_loop name ps acc = acc @ paths_named name ps"
  by (induction ps arbitrary: acc) (simp_all add: paths_named_def)

lemma report_loop_eq: "report_loop ps = concat (map (\<lambda>p. '' - '' @ p @ [CHR 0x0A]) ps)"
  by (induction ps) simp_all

lemma Render_ambiguous:
  assumes "opts a = Some ro" and "prog a = Some prg" and "focus ro \<noteq> ''''"
    and "ImportedPackage prg (focus ro) = None" and "\<not> strings_Contains (focus ro) ''/''"
    and "1 < length (paths_named (focus ro) (pkgs a))"
  shows "Render PrintOutput a minlen options =
           Inr (report_loop (paths_named (focus ro) (pkgs a)),
                Inl (errorString
                  (''focus failed, found multiple packages with name: '' @ focus ro)))"
  using assms by (auto simp add: Render_def found_loop_eq Let_def)

section \<open>Properties of DoAnalysis\<close>

lemma mains_loop_eq: "mains_loop ps acc = acc @ main_packages_of ps"
  by (induction ps acc rule: mains_loop.induct)
     (simp_all add: main_packages_of_def is_main_package_def List.map_filter_simps)

lemma mainPackages_eq:
  "mainPackages ps =
     (if main_packages_of ps = [] then ([], Some (errorString ''no main packages''))
      else (main_packages_of ps, None))"
  by (simp add: mainPackages_def mains_loop_eq Let_def)

lemma main_packages_have_main: "list_all (\<lambda>p. Func p ''main'' \<noteq> None) (main_packages_of ps)"
  by (simp add: main_packages_of_def list_all_iff is_main_package_def)

lemma DoAnalysis_session:
  assumes "DoAnalysis tc buildTags a algo_v dir tests_v args = (Inr None, a')"
  shows "\<exists>initial. packages_Load tc tests_v dir (getBuildFlags buildTags) args = Inr initial \<and>
           prog a' = Some (fst (ssautil_AllPackages tc initial)) \<and>
           pkgs a' = snd (ssautil_AllPackages tc initial)"
  using assms
  by (auto simp: DoAnalysis_def store_analysis_def
      split: sum.splits prod.splits option.splits list.splits if_splits)

section \<open>Properties of the file system\<close>









lemma IsRegular_iff: "IsRegular n = (\<exists>p b. n = RegularFile p b)"
  by (cases n) (simp_all add: IsRegular_def)

lemma start_dir_nodes [simp]: "start_dir (fs\<lparr>nodes := ns\<rparr>) path = start_dir fs path"
  by (simp add: start_dir_def)


declare os_MkdirAll.simps [simp del]











section \<open>Properties of the image cache\<close>

lemma filepath_Clean_nonempty: "filepath_Clean path \<noteq> ''''"
  by (simp add: filepath_Clean_def Let_def)

lemma filepath_Join2:
  "c \<noteq> '''' \<Longrightarrow> filepath_Join [c, x] = filepath_Clean (c @ ''/'' @ x)"
  by (simp add: filepath_Join_def)

lemma strings_Split_nonempty: "strings_Split s sep \<noteq> []"
  by (induction s) (auto split: list.splits)

lemma strings_Split_no_sep: "sep \<notin> set t \<Longrightarrow> strings_Split t sep = [t]"
  by (induction t) (auto split: list.splits)

lemma strings_Split_sep:
  "strings_Split (s @ sep # u) sep = strings_Split s sep @ strings_Split u sep"
  by (induction s) (auto split: list.splits simp: strings_Split_nonempty)

lemma strings_Split_append:
  "sep \<notin> set t \<Longrightarrow>
   strings_Split (s @ t) sep = butlast (strings_Split s sep) @ [last (strings_Split s sep) @ t]"
proof (induction s)
  case Nil
  then show ?case by (simp add: strings_Split_no_sep)
next
  case (Cons c s)
  then show ?case
    by (cases "strings_Split s sep"; cases "strings_Split (s @ t) sep")
       (auto simp: strings_Split_nonempty split: if_splits)
qed

lemma clean_elems_last:
  "e \<noteq> '''' \<Longrightarrow> e \<noteq> ''.'' \<Longrightarrow> e \<noteq> ''..'' \<Longrightarrow>
   clean_elems rooted (es @ [e]) out = clean_elems rooted es out @ [e]"
  by (induction es arbitrary: out) auto

lemma strings_Join_last:
  "strings_Join (ys @ [e @ t]) sep = strings_Join (ys @ [e]) sep @ t"
  by (induction ys sep rule: strings_Join.induct) auto

lemma strings_Join_nonempty: "e \<noteq> '''' \<Longrightarrow> strings_Join (ys @ [e]) sep \<noteq> ''''"
  by (induction ys sep rule: strings_Join.induct) auto

lemma last_element_Join: "last_element (c @ ''/'' @ x) = last_element x"
  using strings_Split_sep [of c "CHR ''/''" x]
  by (simp add: last_element_def strings_Split_nonempty)

text \<open>A dot after a path whose last element is a name stays a dot after the cleaned path.\<close>

lemma filepath_Clean_dot:
  assumes "last_element x \<noteq> ''''" and "last_element x \<noteq> ''.''" and "last_element x \<noteq> ''..''"
  shows "filepath_Clean (x @ ''.'') = filepath_Clean x @ ''.''"
proof -
  let ?S = "strings_Split x (CHR ''/'')"
  let ?e = "last_element x"
  from assms(1) have ne: "x \<noteq> ''''" by (auto simp: last_element_def)
  have S: "?S = butlast ?S @ [?e]"
    by (simp add: last_element_def strings_Split_nonempty)
  have S': "strings_Split (x @ ''.'') (CHR ''/'') = butlast ?S @ [?e @ ''.'']"
    using strings_Split_append [of "CHR ''/''" "''.''" x] by (simp add: last_element_def)
  have d: "?e @ ''.'' \<noteq> ''''" "?e @ ''.'' \<noteq> ''.''" "?e @ ''.'' \<noteq> ''..''"
    using assms(1,2) by auto
  have c1: "clean_elems r ?S [] = clean_elems r (butlast ?S) [] @ [?e]" for r
    using clean_elems_last [OF assms, of r "butlast ?S" "[]"] S by simp
  have c2: "clean_elems r (strings_Split (x @ ''.'') (CHR ''/'')) [] =
            clean_elems r (butlast ?S) [] @ [?e @ ''.'']" for r
    unfolding S' by (rule clean_elems_last [OF d])
  have j: "strings_Join (ys @ [?e @ ''.'']) ''/'' = strings_Join (ys @ [?e]) ''/'' @ ''.''" for ys
    by (rule strings_Join_last)
  have h: "hd (x @ ''.'') = hd x" using ne by simp
  show ?thesis
    using ne assms(1)
    by (simp add: filepath_Clean_def Let_def c1 c2 j h strings_Join_nonempty del: append.simps)
qed

lemma FindCachedImg_eq:
  assumes "opts a = Some ro"
  shows "FindCachedImg a fs =
           Inr (if cacheDir ro = '''' \<or> refresh ro then ''''
                else (case os_Stat fs (cache_path a ro) of
                        Inl err \<Rightarrow> ''''
                      | Inr n \<Rightarrow> cache_path a ro))"
  using assms
  by (simp add: FindCachedImg_def filepath_Join2 pathExists_def cache_path_def Let_def
      split: sum.splits)

lemma CacheImg_steps:
  assumes "opts a = Some ro" and "cacheDir ro \<noteq> ''''" and "img \<noteq> ''''"
  shows "CacheImg a img fs =
           (case os_MkdirAll fs (cache_target_dir ro) of
              (Some err, fs1) \<Rightarrow> (Inr (Some err), fs1)
            | (None, fs1) \<Rightarrow>
                (Inr (snd (fst (copyFile fs1 img (cache_target a ro)))),
                 snd (copyFile fs1 img (cache_target a ro))))"
  using assms
  by (auto simp: CacheImg_def cache_target_def cache_target_dir_def Let_def
      split: sum.splits prod.splits option.splits)

lemma cache_paths_dot:
  assumes "cacheDir ro \<noteq> ''''" and "outputFormat a = ''''"
    and "last_element (focus_or_all ro) \<noteq> ''''" and "last_element (focus_or_all ro) \<noteq> ''.''"
    and "last_element (focus_or_all ro) \<noteq> ''..''"
  shows "cache_path a ro = filepath_Join [cacheDir ro, focus_or_all ro] @ ''.''"
    and "cache_target a ro = filepath_Join [cacheDir ro, focus_or_all ro] @ ''.''"
proof -
  let ?x = "cacheDir ro @ ''/'' @ focus_or_all ro"
  have l: "last_element ?x = last_element (focus_or_all ro)" by (rule last_element_Join)
  have "last_element ?x \<noteq> ''''" "last_element ?x \<noteq> ''.''" "last_element ?x \<noteq> ''..''"
    unfolding l by (fact assms(3) assms(4) assms(5))+
  then have "filepath_Clean (?x @ ''.'') = filepath_Clean ?x @ ''.''"
    by (rule filepath_Clean_dot)
  then show "cache_path a ro = filepath_Join [cacheDir ro, focus_or_all ro] @ ''.''"
    using assms(1,2) by (simp add: cache_path_def filepath_Join2)
  show "cache_target a ro = filepath_Join [cacheDir ro, focus_or_all ro] @ ''.''"
    using assms(2) by (simp add: cache_target_def)
qed

text \<open>
  An image that is the cache file itself: \<^verbatim>\<open>CacheImg\<close> returns no error and leaves the
  file empty.
\<close>

lemma CacheImg_self_copy:
  "fst (CacheImg
     (OptsSetup (NewAnalysis ''svg'') ''/tmp/c'' '''' ''pkg'' '''' '''' '''' False False False ''cha'')
     ''/tmp/c/all.svg''
     \<lparr>nodes = [[] \<mapsto> Directory all_access, [''tmp''] \<mapsto> Directory all_access,
               [''tmp'', ''c''] \<mapsto> Directory all_access,
               [''tmp'', ''c'', ''all.svg''] \<mapsto> RegularFile file_access ''<svg/>''],
      cwd = []\<rparr>) = Inr None \<and>
   os_Stat (snd (CacheImg
     (OptsSetup (NewAnalysis ''svg'') ''/tmp/c'' '''' ''pkg'' '''' '''' '''' False False False ''cha'')
     ''/tmp/c/all.svg''
     \<lparr>nodes = [[] \<mapsto> Directory all_access, [''tmp''] \<mapsto> Directory all_access,
               [''tmp'', ''c''] \<mapsto> Directory all_access,
               [''tmp'', ''c'', ''all.svg''] \<mapsto> RegularFile file_access ''<svg/>''],
      cwd = []\<rparr>)) ''/tmp/c/all.svg'' = Inr (RegularFile file_access '''')"
  by code_simp

text \<open>
  A cache directory that is the working directory: the joined path has no separator, the
  directory to make is the empty path, and \<^verbatim>\<open>os.MkdirAll\<close> fails on it.
\<close>

lemma CacheImg_current_directory:
  assumes "opts a = Some ro" and "cacheDir ro = ''.''" and "focus ro = ''''" and "img \<noteq> ''''"
  shows "CacheImg a img fs = (Inr (Some (PathError ''mkdir'' '''' ENOENT)), fs)"
proof -
  have j: "filepath_Join [''.'', ''all''] = ''all''" by code_simp
  have d: "cache_target_dir ro = ''''"
    using assms(2,3) by (simp add: cache_target_dir_def focus_or_all_def j strings_TrimRightFunc_def)
  have p: "parent_path '''' = ''''" by code_simp
  have c: "path_check '''' = Some ENOENT" by code_simp
  have m: "os_MkdirAll fs '''' = (Some (PathError ''mkdir'' '''' ENOENT), fs)"
    by (simp add: os_MkdirAll.simps [of fs "''''"] os_Stat_def resolve_def os_Mkdir_def
        sys_mkdir_def p c)
  from CacheImg_steps [OF assms(1), of img fs] assms(2,4) d m show ?thesis by simp
qed

section \<open>Properties of the request handler\<close>

text \<open>
  A session for the examples: the options \<^verbatim>\<open>main\<close> sets up from the default flag values,
  and a program whose two loaded packages are both named \<^verbatim>\<open>util\<close>.
\<close>

lemma example_Override_focus:
  "OverrideByHTTP
     (store_analysis
        (OptsSetup (NewAnalysis '''') '''' ''main'' ''pkg'' '''' '''' '''' False False False ''cha'')
        \<lparr>imported = [(''a/util'', \<lparr>Pkg = \<lparr>Name = ''util'', Path = ''a/util''\<rparr>, Members = []\<rparr>),
                     (''b/util'', \<lparr>Pkg = \<lparr>Name = ''util'', Path = ''b/util''\<rparr>, Members = []\<rparr>)],
         AllPackages = []\<rparr>
        [\<lparr>Pkg = \<lparr>Name = ''util'', Path = ''a/util''\<rparr>, Members = []\<rparr>,
         \<lparr>Pkg = \<lparr>Name = ''util'', Path = ''b/util''\<rparr>, Members = []\<rparr>]
        None (Graph []))
     \<lparr>URL_Path = ''/'', Form = [(''f'', [''util''])]\<rparr>
   = (Inr (),
      \<lparr>opts = Some \<lparr>cacheDir = '''', focus = ''util'', group = [''pkg''],
                ignore = [''''], include' = [''''], limit = [''''],
                nointer = False, refresh = False, nostd = False, algo = []\<rparr>,
       prog = Some
        \<lparr>imported = [(''a/util'', \<lparr>Pkg = \<lparr>Name = ''util'', Path = ''a/util''\<rparr>, Members = []\<rparr>),
                     (''b/util'', \<lparr>Pkg = \<lparr>Name = ''util'', Path = ''b/util''\<rparr>, Members = []\<rparr>)],
         AllPackages = []\<rparr>,
       pkgs = [\<lparr>Pkg = \<lparr>Name = ''util'', Path = ''a/util''\<rparr>, Members = []\<rparr>,
               \<lparr>Pkg = \<lparr>Name = ''util'', Path = ''b/util''\<rparr>, Members = []\<rparr>],
       mainPkg = None, callgraph = Some (Graph []), outputFormat = '''',
       Minlen = 0, PrintOptions = []\<rparr>)"
  by (simp add: OverrideByHTTP_def override_group_def override_limit_def override_ignore_def
      override_include_def override_flags_def set_first_def FormValue_def Let_def
      store_analysis_def OptsSetup_def NewAnalysis_def)

lemma example_Process_focus:
  "ProcessListArgs
     \<lparr>opts = Some \<lparr>cacheDir = '''', focus = ''util'', group = [''pkg''],
                ignore = [''''], include' = [''''], limit = [''''],
                nointer = False, refresh = False, nostd = False, algo = []\<rparr>,
       prog = Some
        \<lparr>imported = [(''a/util'', \<lparr>Pkg = \<lparr>Name = ''util'', Path = ''a/util''\<rparr>, Members = []\<rparr>),
                     (''b/util'', \<lparr>Pkg = \<lparr>Name = ''util'', Path = ''b/util''\<rparr>, Members = []\<rparr>)],
         AllPackages = []\<rparr>,
       pkgs = [\<lparr>Pkg = \<lparr>Name = ''util'', Path = ''a/util''\<rparr>, Members = []\<rparr>,
               \<lparr>Pkg = \<lparr>Name = ''util'', Path = ''b/util''\<rparr>, Members = []\<rparr>],
       mainPkg = None, callgraph = Some (Graph []), outputFormat = '''',
       Minlen = 0, PrintOptions = []\<rparr>
   = (Inr None,
      \<lparr>opts = Some \<lparr>cacheDir = '''', focus = ''util'', group = [''pkg''],
                ignore = [], include' = [], limit = [],
                nointer = False, refresh = False, nostd = False, algo = []\<rparr>,
       prog = Some
        \<lparr>imported = [(''a/util'', \<lparr>Pkg = \<lparr>Name = ''util'', Path = ''a/util''\<rparr>, Members = []\<rparr>),
                     (''b/util'', \<lparr>Pkg = \<lparr>Name = ''util'', Path = ''b/util''\<rparr>, Members = []\<rparr>)],
         AllPackages = []\<rparr>,
       pkgs = [\<lparr>Pkg = \<lparr>Name = ''util'', Path = ''a/util''\<rparr>, Members = []\<rparr>,
               \<lparr>Pkg = \<lparr>Name = ''util'', Path = ''b/util''\<rparr>, Members = []\<rparr>],
       mainPkg = None, callgraph = Some (Graph []), outputFormat = '''',
       Minlen = 0, PrintOptions = []\<rparr>)"
proof -
  let ?ro = "\<lparr>cacheDir = '''', focus = ''util'', group = [''pkg''],
                ignore = [''''], include' = [''''], limit = [''''],
                nointer = False, refresh = False, nostd = False, algo = []\<rparr>"
  let ?a = "\<lparr>opts = Some ?ro,
       prog = Some
        \<lparr>imported = [(''a/util'', \<lparr>Pkg = \<lparr>Name = ''util'', Path = ''a/util''\<rparr>, Members = []\<rparr>),
                     (''b/util'', \<lparr>Pkg = \<lparr>Name = ''util'', Path = ''b/util''\<rparr>, Members = []\<rparr>)],
         AllPackages = []\<rparr>,
       pkgs = [\<lparr>Pkg = \<lparr>Name = ''util'', Path = ''a/util''\<rparr>, Members = []\<rparr>,
               \<lparr>Pkg = \<lparr>Name = ''util'', Path = ''b/util''\<rparr>, Members = []\<rparr>],
       mainPkg = None, callgraph = Some (Graph []), outputFormat = '''',
       Minlen = 0, PrintOptions = []\<rparr>"
  have o: "opts ?a = Some ?ro" by simp
  from ProcessListArgs_eq [OF o, of "''pkg''" "[]"] show ?thesis
    by (simp add: tokens_pkg tokens_empty group_value_def split_paths_Cons)
qed

section \<open>Properties of the entry point\<close>

lemma flags_after_Parse_values:
  "flag_Bool (flags_after_Parse f) ''version'' = False"
  "flag_String (flags_after_Parse f) ''file'' = ''''"
  "flag_String (flags_after_Parse f) ''algo'' = ''cha''"
  "flag_Bool (flags_after_Parse f) ''tests'' = False"
  "flag_args (flags_after_Parse f) = flag_args f"
  by (simp_all add: flags_after_Parse_def define_flag_def flag_Bool_def flag_String_def)

lemma version_not_defined_at_Parse: "formal flags_at_Parse ''version'' = None"
  by (simp add: flags_at_Parse_def package_flags_def define_flag_def)

lemma main_never_prints_version: "main conv argv \<noteq> Exit n (PrintedVersion v)"
  by (auto simp: main_def Let_def flags_after_Parse_values split: sum.splits)

lemma Version_text: "Version = ''v0.8.0 built from git (unknown)''"
  by (simp add: Version_def version_def commit_def)

lemma main_Analyse_file:
  assumes "main conv argv = Analyse a algo_v tests_v args file_v"
  shows "file_v = '''' \<and> outputFormat a = file_v"
  using assms
  by (auto simp: main_def Let_def flags_after_Parse_values OptsSetup_def NewAnalysis_def
      split: sum.splits if_splits)

lemma outputFormat_DoAnalysis:
  "outputFormat (snd (DoAnalysis tc buildTags a algo_v dir tests_v args)) = outputFormat a"
  by (auto simp: DoAnalysis_def store_analysis_def
      split: sum.splits prod.splits option.splits list.splits)

lemma outputFormat_OverrideByHTTP:
  "outputFormat (snd (OverrideByHTTP a r)) = outputFormat a"
  by (auto simp: OverrideByHTTP_def split: option.splits prod.splits sum.splits)

lemma outputFormat_ProcessListArgs:
  "outputFormat (snd (ProcessListArgs a)) = outputFormat a"
  by (auto simp: ProcessListArgs_def split: option.splits prod.splits list.splits)

lemma outputFormat_handler:
  assumes "handler PrintOutput DotToImage gv fmt r (Some a) fs = (out, Some a', fs')"
  shows "outputFormat a' = outputFormat a"
proof -
  have o: "outputFormat (snd (OverrideByHTTP a r)) = outputFormat a"
    by (rule outputFormat_OverrideByHTTP)
  have p: "outputFormat (snd (ProcessListArgs (snd (OverrideByHTTP a r)))) = outputFormat a"
    by (simp add: outputFormat_ProcessListArgs o)
  have "a' = a \<or> a' = snd (OverrideByHTTP a r) \<or>
        a' = snd (ProcessListArgs (snd (OverrideByHTTP a r)))"
    using assms
    by (auto simp: handler_def
        split: if_splits prod.splits sum.splits option.splits dot_result.splits)
  with o p show ?thesis by auto
qed

lemma example_main_run:
  "main (\<lambda>k s. Some s) [''-cacheDir'', ''/tmp/c'', ''-format'', ''svg'', ''./cmd''] =
     Analyse
       ((OptsSetup (NewAnalysis '''') ''/tmp/c'' ''main'' ''pkg'' '''' '''' '''' False False False ''cha'')
        \<lparr>Minlen := 2,
          PrintOptions := [(''minlen'', ''2''), (''nodesep'', ''0.35''), (''nodeshape'', ''box''),
                           (''nodestyle'', ''filled,rounded''), (''rankdir'', ''LR'')]\<rparr>)
       ''cha'' False [''./cmd''] ''''"
  by code_simp

section \<open>The claims\<close>

subsection \<open>Resolving the focus\<close>

text \<open>
  Claim C1. In a session with options and a program, let the focus target be non-empty.
  \<^item> If the program has a package registered under the target as import path, that
    package is the focus: \<^verbatim>\<open>Render\<close> returns what the renderer makes of it.
  \<^item> If there is none and the target contains the separator \<^verbatim>\<open>/\<close>, \<^verbatim>\<open>Render\<close> fails
    with the focus error \<^verbatim>\<open>focus failed: <nil>\<close>.
  \<^item> Otherwise the loaded packages are searched by name. No match is the error
    \<^verbatim>\<open>focus failed, could not find package: <target>\<close>. More than one match is the
    error \<^verbatim>\<open>focus failed, found multiple packages with name: <target>\<close>, and the
    import path of every match is written to the standard error stream, one line
    \<^verbatim>\<open> - <path>\<close> each, in the order of the packages.
  \<^item> Exactly one match \<open>m\<close> resolves the focus, in every session whose loaded packages
    each have a package registered in the program under their import path: the focus
    is the package registered under the import path of \<open>m\<close>. \<^verbatim>\<open>DoAnalysis\<close> stores the
    program and the loaded packages as one call of \<^verbatim>\<open>ssautil.AllPackages\<close> returns them
    (\<open>DoAnalysis_session\<close>), and that function registers every package it creates, so
    these are the sessions that are rendered.
  \<^item> The code also guards the lookup of that one match: were no package registered
    under its import path, \<^verbatim>\<open>Render\<close> would fail with \<^verbatim>\<open>focus failed: <nil>\<close>.
  Nothing is written to the standard error stream but the lines of the ambiguity error.
\<close>

theorem Render_focus:
  assumes "opts a = Some ro" and "prog a = Some prg" and "focus ro \<noteq> ''''"
  shows
    "(\<forall>p. ImportedPackage prg (focus ro) = Some p \<longrightarrow>
        Render PrintOutput a minlen options =
          Inr ('''', print_output PrintOutput a ro (Some (Pkg p)) minlen options)) \<and>
     (ImportedPackage prg (focus ro) = None \<and> strings_Contains (focus ro) ''/'' \<longrightarrow>
        Render PrintOutput a minlen options =
          Inr ('''', Inl (errorString ''focus failed: <nil>''))) \<and>
     (ImportedPackage prg (focus ro) = None \<and> \<not> strings_Contains (focus ro) ''/'' \<and>
      paths_named (focus ro) (pkgs a) = [] \<longrightarrow>
        Render PrintOutput a minlen options =
          Inr ('''', Inl (errorString
                 (''focus failed, could not find package: '' @ focus ro)))) \<and>
     (ImportedPackage prg (focus ro) = None \<and> \<not> strings_Contains (focus ro) ''/'' \<and>
      1 < length (paths_named (focus ro) (pkgs a)) \<longrightarrow>
        Render PrintOutput a minlen options =
          Inr (concat (map (\<lambda>p. '' - '' @ p @ [CHR 0x0A]) (paths_named (focus ro) (pkgs a))),
               Inl (errorString
                 (''focus failed, found multiple packages with name: '' @ focus ro)))) \<and>
     (\<forall>m. ImportedPackage prg (focus ro) = None \<and> \<not> strings_Contains (focus ro) ''/'' \<and>
          filter (\<lambda>p. Name (Pkg p) = focus ro) (pkgs a) = [m] \<longrightarrow>
        ((\<forall>l\<in>set (pkgs a). \<exists>p. ImportedPackage prg (Path (Pkg l)) = Some p) \<longrightarrow>
           (\<exists>p. ImportedPackage prg (Path (Pkg m)) = Some p \<and>
                Render PrintOutput a minlen options =
                  Inr ('''', print_output PrintOutput a ro (Some (Pkg p)) minlen options))) \<and>
        (\<forall>p. ImportedPackage prg (Path (Pkg m)) = Some p \<longrightarrow>
           Render PrintOutput a minlen options =
             Inr ('''', print_output PrintOutput a ro (Some (Pkg p)) minlen options)) \<and>
        (ImportedPackage prg (Path (Pkg m)) = None \<longrightarrow>
           Render PrintOutput a minlen options =
             Inr ('''', Inl (errorString ''focus failed: <nil>''))))"
proof -
  have first: "(\<forall>p. ImportedPackage prg (focus ro) = Some p \<longrightarrow>
        Render PrintOutput a minlen options =
          Inr ('''', print_output PrintOutput a ro (Some (Pkg p)) minlen options)) \<and>
     (ImportedPackage prg (focus ro) = None \<and> strings_Contains (focus ro) ''/'' \<longrightarrow>
        Render PrintOutput a minlen options =
          Inr ('''', Inl (errorString ''focus failed: <nil>''))) \<and>
     (ImportedPackage prg (focus ro) = None \<and> \<not> strings_Contains (focus ro) ''/'' \<and>
      paths_named (focus ro) (pkgs a) = [] \<longrightarrow>
        Render PrintOutput a minlen options =
          Inr ('''', Inl (errorString
                 (''focus failed, could not find package: '' @ focus ro)))) \<and>
     (ImportedPackage prg (focus ro) = None \<and> \<not> strings_Contains (focus ro) ''/'' \<and>
      1 < length (paths_named (focus ro) (pkgs a)) \<longrightarrow>
        Render PrintOutput a minlen options =
          Inr (concat (map (\<lambda>p. '' - '' @ p @ [CHR 0x0A]) (paths_named (focus ro) (pkgs a))),
               Inl (errorString
                 (''focus failed, found multiple packages with name: '' @ focus ro))))"
    using assms
    by (simp add: Render_def found_loop_eq report_loop_eq Let_def)
  have single: "((\<forall>l\<in>set (pkgs a). \<exists>p. ImportedPackage prg (Path (Pkg l)) = Some p) \<longrightarrow>
           (\<exists>p. ImportedPackage prg (Path (Pkg m)) = Some p \<and>
                Render PrintOutput a minlen options =
                  Inr ('''', print_output PrintOutput a ro (Some (Pkg p)) minlen options))) \<and>
        (\<forall>p. ImportedPackage prg (Path (Pkg m)) = Some p \<longrightarrow>
           Render PrintOutput a minlen options =
             Inr ('''', print_output PrintOutput a ro (Some (Pkg p)) minlen options)) \<and>
        (ImportedPackage prg (Path (Pkg m)) = None \<longrightarrow>
           Render PrintOutput a minlen options =
             Inr ('''', Inl (errorString ''focus failed: <nil>'')))"
    if h: "ImportedPackage prg (focus ro) = None \<and> \<not> strings_Contains (focus ro) ''/'' \<and>
          filter (\<lambda>p. Name (Pkg p) = focus ro) (pkgs a) = [m]" for m
  proof -
    from h have "m \<in> set (filter (\<lambda>p. Name (Pkg p) = focus ro) (pkgs a))" by simp
    then have mem: "m \<in> set (pkgs a)" by simp
    from h have n: "paths_named (focus ro) (pkgs a) = [Path (Pkg m)]"
      by (simp add: paths_named_def)
    have some: "Render PrintOutput a minlen options =
               Inr ('''', print_output PrintOutput a ro (Some (Pkg p)) minlen options)"
      if "ImportedPackage prg (Path (Pkg m)) = Some p" for p
      using assms h n that by (simp add: Render_def found_loop_eq Let_def)
    have none: "Render PrintOutput a minlen options =
               Inr ('''', Inl (errorString ''focus failed: <nil>''))"
      if "ImportedPackage prg (Path (Pkg m)) = None"
      using assms h n that by (simp add: Render_def found_loop_eq Let_def)
    from mem some none show ?thesis by blast
  qed
  from first single show ?thesis by blast
qed

text \<open>
  The theorem at two sessions with the target \<^verbatim>\<open>util\<close>: one package named \<^verbatim>\<open>util\<close>
  at \<^verbatim>\<open>a/util\<close> resolves to \<^verbatim>\<open>a/util\<close> (the renderer here answers with the path of the
  focus); two packages named \<^verbatim>\<open>util\<close> give the ambiguity error and the two lines.
\<close>

theorem Render_focus_witness:
  "Render (\<lambda>x. Inr (case arg_focusPkg x of None \<Rightarrow> ''all'' | Some p \<Rightarrow> Path p))
     (store_analysis
        (OptsSetup (NewAnalysis ''svg'') '''' ''util'' ''pkg'' '''' '''' '''' False False False ''cha'')
        \<lparr>imported = [(''a/util'', \<lparr>Pkg = \<lparr>Name = ''util'', Path = ''a/util''\<rparr>, Members = []\<rparr>)],
         AllPackages = [Some \<lparr>Pkg = \<lparr>Name = ''util'', Path = ''a/util''\<rparr>, Members = []\<rparr>]\<rparr>
        [\<lparr>Pkg = \<lparr>Name = ''util'', Path = ''a/util''\<rparr>, Members = []\<rparr>]
        None (Graph []))
     2 [] = Inr ('''', Inr ''a/util'') \<and>
   Render (\<lambda>x. Inr (case arg_focusPkg x of None \<Rightarrow> ''all'' | Some p \<Rightarrow> Path p))
     (store_analysis
        (OptsSetup (NewAnalysis ''svg'') '''' ''util'' ''pkg'' '''' '''' '''' False False False ''cha'')
        \<lparr>imported = [(''a/util'', \<lparr>Pkg = \<lparr>Name = ''util'', Path = ''a/util''\<rparr>, Members = []\<rparr>),
                     (''b/util'', \<lparr>Pkg = \<lparr>Name = ''util'', Path = ''b/util''\<rparr>, Members = []\<rparr>)],
         AllPackages = [Some \<lparr>Pkg = \<lparr>Name = ''util'', Path = ''a/util''\<rparr>, Members = []\<rparr>,
                        Some \<lparr>Pkg = \<lparr>Name = ''util'', Path = ''b/util''\<rparr>, Members = []\<rparr>]\<rparr>
        [\<lparr>Pkg = \<lparr>Name = ''util'', Path = ''a/util''\<rparr>, Members = []\<rparr>,
         \<lparr>Pkg = \<lparr>Name = ''util'', Path = ''b/util''\<rparr>, Members = []\<rparr>]
        None (Graph []))
     2 [] =
     Inr ('' - a/util'' @ [CHR 0x0A] @ '' - b/util'' @ [CHR 0x0A],
          Inl (errorString ''focus failed, found multiple packages with name: util''))"
proof -
  let ?po = "\<lambda>x. Inr (case arg_focusPkg x of None \<Rightarrow> ''all'' | Some p \<Rightarrow> Path p)
               :: error + string"
  let ?u1 = "\<lparr>Pkg = \<lparr>Name = ''util'', Path = ''a/util''\<rparr>, Members = []\<rparr>"
  let ?u2 = "\<lparr>Pkg = \<lparr>Name = ''util'', Path = ''b/util''\<rparr>, Members = []\<rparr>"
  let ?ro = "\<lparr>cacheDir = '''', focus = ''util'', group = [''pkg''],
              ignore = [''''], include' = [''''], limit = [''''],
              nointer = False, refresh = False, nostd = False, algo = []\<rparr>"
  let ?s = "OptsSetup (NewAnalysis ''svg'') '''' ''util'' ''pkg'' '''' '''' '''' False False False ''cha''"
  let ?p1 = "\<lparr>imported = [(''a/util'', ?u1)], AllPackages = [Some ?u1]\<rparr>"
  let ?p2 = "\<lparr>imported = [(''a/util'', ?u1), (''b/util'', ?u2)], AllPackages = [Some ?u1, Some ?u2]\<rparr>"
  let ?a1 = "store_analysis ?s ?p1 [?u1] None (Graph [])"
  let ?a2 = "store_analysis ?s ?p2 [?u1, ?u2] None (Graph [])"
  have o1: "opts ?a1 = Some ?ro" and o2: "opts ?a2 = Some ?ro"
    by (simp_all add: store_analysis_def OptsSetup_def NewAnalysis_def)
  have g1: "prog ?a1 = Some ?p1" and g2: "prog ?a2 = Some ?p2"
    by (simp_all add: store_analysis_def)
  have f: "focus ?ro \<noteq> ''''" by simp
  have k1: "\<forall>m\<in>set (pkgs ?a1). \<exists>p. ImportedPackage ?p1 (Path (Pkg m)) = Some p"
    and k2: "\<forall>m\<in>set (pkgs ?a2). \<exists>p. ImportedPackage ?p2 (Path (Pkg m)) = Some p"
    by (simp_all add: store_analysis_def ImportedPackage_def)
  have i1: "ImportedPackage ?p1 (focus ?ro) = None" and i2: "ImportedPackage ?p2 (focus ?ro) = None"
    by (simp_all add: ImportedPackage_def)
  have c: "\<not> strings_Contains (focus ?ro) ''/''" by simp
  have n1: "filter (\<lambda>p. Name (Pkg p) = focus ?ro) (pkgs ?a1) = [?u1]"
    and n2: "paths_named (focus ?ro) (pkgs ?a2) = [''a/util'', ''b/util'']"
    by (simp_all add: paths_named_def store_analysis_def)
  have r1: "ImportedPackage ?p1 (Path (Pkg ?u1)) = Some ?u1" by (simp add: ImportedPackage_def)
  have "Render ?po ?a1 2 [] = Inr ('''', print_output ?po ?a1 ?ro (Some (Pkg ?u1)) 2 [])"
    using Render_focus [OF o1 g1 f, of ?po 2 "[]"] i1 c n1 k1 r1 by blast
  moreover have "Render ?po ?a2 2 [] =
      Inr (concat (map (\<lambda>p. '' - '' @ p @ [CHR 0x0A]) (paths_named (focus ?ro) (pkgs ?a2))),
           Inl (errorString (''focus failed, found multiple packages with name: '' @ focus ?ro)))"
    using Render_focus [OF o2 g2 f, of ?po 2 "[]"] i2 c n2 by simp
  ultimately show ?thesis
    by (simp add: paths_named_def store_analysis_def print_output_def)
qed

subsection \<open>The grouping list\<close>

text \<open>
  Claim C2, as amended. Let the first element of the group list be the comma-separated
  string \<open>s\<close>, and let its tokens be the trimmed pieces that are not blank.
  \<^item> If there is at least one token and every token is \<^verbatim>\<open>pkg\<close> or \<^verbatim>\<open>type\<close>,
    \<^verbatim>\<open>ProcessListArgs\<close> returns no error and the group list is exactly the tokens, in
    order, with no blank among them.
  \<^item> If there is no token at all, it returns no error and the group list stays as it was
    (the assignment to the list stands inside the loop, after an accepted token).
  \<^item> If some token is neither \<^verbatim>\<open>pkg\<close> nor \<^verbatim>\<open>type\<close>, it returns the error
    \<^verbatim>\<open>invalid group option\<close> and the ignore, include and limit lists are not touched in
    that call; the group list holds the tokens accepted before the first refused one,
    and is unchanged when the first token is the refused one.
\<close>

theorem ProcessListArgs_group_list:
  assumes "opts a = Some ro" and "group ro = s # rest"
  shows
    "(nonblank_tokens s \<noteq> [] \<and> list_all group_value (nonblank_tokens s) \<longrightarrow>
        fst (ProcessListArgs a) = Inr None \<and>
        map_option group (opts (snd (ProcessListArgs a))) = Some (nonblank_tokens s) \<and>
        '''' \<notin> set (nonblank_tokens s)) \<and>
     (nonblank_tokens s = [] \<longrightarrow>
        fst (ProcessListArgs a) = Inr None \<and>
        map_option group (opts (snd (ProcessListArgs a))) = Some (group ro)) \<and>
     (\<not> list_all group_value (nonblank_tokens s) \<longrightarrow>
        ProcessListArgs a =
          (Inr (Some (errors_New ''invalid group option'')),
           a\<lparr>opts := Some
              (ro\<lparr>group :=
                    (if takeWhile group_value (nonblank_tokens s) = [] then group ro
                     else takeWhile group_value (nonblank_tokens s))\<rparr>)\<rparr>))"
proof -
  note eq = ProcessListArgs_eq [OF assms]
  have "nonblank_tokens s \<noteq> [] \<and> list_all group_value (nonblank_tokens s) \<longrightarrow>
        fst (ProcessListArgs a) = Inr None \<and>
        map_option group (opts (snd (ProcessListArgs a))) = Some (nonblank_tokens s) \<and>
        '''' \<notin> set (nonblank_tokens s)"
    using eq by (simp add: nonblank_tokens_no_blank)
  moreover have "nonblank_tokens s = [] \<longrightarrow>
        fst (ProcessListArgs a) = Inr None \<and>
        map_option group (opts (snd (ProcessListArgs a))) = Some (group ro)"
    using eq by simp
  moreover have "\<not> list_all group_value (nonblank_tokens s) \<longrightarrow>
        ProcessListArgs a =
          (Inr (Some (errors_New ''invalid group option'')),
           a\<lparr>opts := Some
              (ro\<lparr>group :=
                    (if takeWhile group_value (nonblank_tokens s) = [] then group ro
                     else takeWhile group_value (nonblank_tokens s))\<rparr>)\<rparr>)"
    using eq by simp
  ultimately show ?thesis by blast
qed

text \<open>
  The theorem at the grouping string \<^verbatim>\<open>" type , pkg,"\<close> of a session set up by
  \<^verbatim>\<open>OptsSetup\<close>: the list becomes \<^verbatim>\<open>type\<close>, \<^verbatim>\<open>pkg\<close>.
\<close>

theorem ProcessListArgs_group_list_witness:
  "fst (ProcessListArgs
         (OptsSetup (NewAnalysis ''svg'') '''' ''main'' '' type , pkg,'' '''' '''' ''''
            False False False ''cha'')) = Inr None \<and>
   map_option group
     (opts (snd (ProcessListArgs
         (OptsSetup (NewAnalysis ''svg'') '''' ''main'' '' type , pkg,'' '''' '''' ''''
            False False False ''cha'')))) = Some [''type'', ''pkg'']"
proof -
  let ?ro = "\<lparr>cacheDir = '''', focus = ''main'', group = ['' type , pkg,''],
              ignore = [''''], include' = [''''], limit = [''''],
              nointer = False, refresh = False, nostd = False, algo = []\<rparr>"
  let ?a = "OptsSetup (NewAnalysis ''svg'') '''' ''main'' '' type , pkg,'' '''' '''' ''''
              False False False ''cha''"
  have h1: "opts ?a = Some ?ro" by (simp add: OptsSetup_def NewAnalysis_def)
  have h2: "group ?ro = '' type , pkg,'' # []" by simp
  have h3: "list_all group_value [''type'', ''pkg'']" by (simp add: group_value_def)
  from ProcessListArgs_group_list [OF h1 h2] h3 show ?thesis
    by (simp add: tokens_type_pkg)
qed

text \<open>
  The claim as it was stated fails at two inputs. With the grouping string
  \<^verbatim>\<open>"pkg,bogus"\<close> the call returns the error, but the group list is no longer the one
  it was: it now holds \<^verbatim>\<open>pkg\<close>. With the empty grouping string every token is blank, the
  call returns no error, and the group list still holds the empty string instead of
  being empty.
\<close>

theorem ProcessListArgs_group_list_counterexample:
  "fst (ProcessListArgs
         (OptsSetup (NewAnalysis ''svg'') '''' ''main'' ''pkg,bogus'' '''' '''' ''''
            False False False ''cha'')) = Inr (Some (errors_New ''invalid group option'')) \<and>
   map_option group
     (opts (OptsSetup (NewAnalysis ''svg'') '''' ''main'' ''pkg,bogus'' '''' '''' ''''
            False False False ''cha'')) = Some [''pkg,bogus''] \<and>
   map_option group
     (opts (snd (ProcessListArgs
         (OptsSetup (NewAnalysis ''svg'') '''' ''main'' ''pkg,bogus'' '''' '''' ''''
            False False False ''cha'')))) = Some [''pkg''] \<and>
   fst (ProcessListArgs
         (OptsSetup (NewAnalysis ''svg'') '''' ''main'' '''' '''' '''' ''''
            False False False ''cha'')) = Inr None \<and>
   map_option group
     (opts (snd (ProcessListArgs
         (OptsSetup (NewAnalysis ''svg'') '''' ''main'' '''' '''' '''' ''''
            False False False ''cha'')))) = Some ['''']"
proof -
  have a: "opts (OptsSetup (NewAnalysis ''svg'') '''' ''main'' ''pkg,bogus'' '''' '''' ''''
            False False False ''cha'') =
           Some \<lparr>cacheDir = '''', focus = ''main'', group = [''pkg,bogus''],
              ignore = [''''], include' = [''''], limit = [''''],
              nointer = False, refresh = False, nostd = False, algo = []\<rparr>"
    by (simp add: OptsSetup_def NewAnalysis_def)
  have b: "opts (OptsSetup (NewAnalysis ''svg'') '''' ''main'' '''' '''' '''' ''''
            False False False ''cha'') =
           Some \<lparr>cacheDir = '''', focus = ''main'', group = [''''],
              ignore = [''''], include' = [''''], limit = [''''],
              nointer = False, refresh = False, nostd = False, algo = []\<rparr>"
    by (simp add: OptsSetup_def NewAnalysis_def)
  show ?thesis
    using ProcessListArgs_eq [OF a, of "''pkg,bogus''" "[]"]
          ProcessListArgs_eq [OF b, of "''''" "[]"]
    by (simp add: a tokens_pkg_bogus tokens_empty group_value_def)
qed

subsection \<open>The query overrides\<close>

text \<open>
  Claim C3 at a failing input. The session is the one \<^verbatim>\<open>main\<close> sets up from the default
  flag values, after the list processing of a first request; the include list is then
  empty. A second request with \<^verbatim>\<open>include=github.com\<close> does not replace a first element:
  \<^verbatim>\<open>OverrideByHTTP\<close> panics with an index out of range.
\<close>

theorem OverrideByHTTP_include_failing_input:
  "fst (OverrideByHTTP
         (snd (ProcessListArgs
            (OptsSetup (NewAnalysis '''') '''' ''main'' ''pkg'' '''' '''' ''''
               False False False ''cha'')))
         \<lparr>URL_Path = ''/'', Form = [(''include'', [''github.com''])]\<rparr>)
     = Inl (IndexOutOfRange 0 0)"
proof -
  let ?ro = "\<lparr>cacheDir = '''', focus = ''main'', group = [''pkg''],
              ignore = [''''], include' = [''''], limit = [''''],
              nointer = False, refresh = False, nostd = False, algo = []\<rparr>"
  let ?a = "OptsSetup (NewAnalysis '''') '''' ''main'' ''pkg'' '''' '''' ''''
              False False False ''cha''"
  let ?r = "\<lparr>URL_Path = ''/'', Form = [(''include'', [''github.com''])]\<rparr>"
  have h1: "opts ?a = Some ?ro" by (simp add: OptsSetup_def NewAnalysis_def)
  have h2: "snd (ProcessListArgs ?a) =
              ?a\<lparr>opts := Some (?ro\<lparr>group := [''pkg''], ignore := [], include' := [],
                                    limit := []\<rparr>)\<rparr>"
    using ProcessListArgs_eq [OF h1, of "''pkg''" "[]"]
    by (simp add: tokens_pkg tokens_empty group_value_def split_paths_Cons)
  have h3: "FormValue ?r ''include'' \<noteq> ''''" by (simp add: FormValue_def)
  let ?ro' = "?ro\<lparr>group := [''pkg''], ignore := [], include' := [], limit := []\<rparr>"
  have h4: "opts (?a\<lparr>opts := Some ?ro'\<rparr>) = Some ?ro'" by simp
  have h5: "group ?ro' \<noteq> []" by simp
  have h6: "include' ?ro' = []" by simp
  show ?thesis
    unfolding h2 by (rule OverrideByHTTP_panic_include [OF h4 h5 h6 h3])
qed

subsection \<open>The roots of the rapid type analysis\<close>

text \<open>
  Claim C4. Let the packages load without errors and let the program be built from them,
  and let the algorithm be \<^verbatim>\<open>rta\<close>. If no package of the program is named \<^verbatim>\<open>main\<close> and
  has a function \<^verbatim>\<open>main\<close>, \<^verbatim>\<open>DoAnalysis\<close> fails with the error \<^verbatim>\<open>no main packages\<close> and
  leaves the session as it was. If there are such packages, the first of them becomes
  the main package of the session, and the call graph is the one the analysis computes
  from the \<^verbatim>\<open>main\<close> functions of all of them as roots, none of which is nil.
\<close>

theorem DoAnalysis_rta:
  assumes "packages_Load tc tests dir (getBuildFlags buildTags) args = Inr initial"
    and "packages_PrintErrors tc initial = 0"
    and "ssautil_AllPackages tc initial = (prg, ps)"
  shows
    "(main_packages_of (AllPackages prg) = [] \<longrightarrow>
        DoAnalysis tc buildTags a CallGraphTypeRta dir tests args =
          (Inr (Some (errorString ''no main packages'')), a)) \<and>
     (\<forall>m ms. main_packages_of (AllPackages prg) = m # ms \<longrightarrow>
        DoAnalysis tc buildTags a CallGraphTypeRta dir tests args =
          (Inr None,
           a\<lparr>prog := Some prg, pkgs := ps, mainPkg := Some m,
              callgraph := Some (rta_Analyze tc (map (\<lambda>p. Func p ''main'') (m # ms)) True)\<rparr>) \<and>
        list_all (\<lambda>p. Func p ''main'' \<noteq> None) (m # ms))"
proof -
  have rta: "CallGraphTypeRta \<noteq> CallGraphTypeStatic" "CallGraphTypeRta \<noteq> CallGraphTypeCha"
    by (simp_all add: CallGraphTypeRta_def CallGraphTypeStatic_def CallGraphTypeCha_def)
  have none: "DoAnalysis tc buildTags a CallGraphTypeRta dir tests args =
          (Inr (Some (errorString ''no main packages'')), a)"
    if "main_packages_of (AllPackages prg) = []"
    using assms that rta by (simp add: DoAnalysis_def mainPackages_eq)
  have some: "DoAnalysis tc buildTags a CallGraphTypeRta dir tests args =
          (Inr None,
           a\<lparr>prog := Some prg, pkgs := ps, mainPkg := Some m,
              callgraph := Some (rta_Analyze tc (map (\<lambda>p. Func p ''main'') (m # ms)) True)\<rparr>) \<and>
        list_all (\<lambda>p. Func p ''main'' \<noteq> None) (m # ms)"
    if "main_packages_of (AllPackages prg) = m # ms" for m ms
    using assms that rta main_packages_have_main [of "AllPackages prg"]
    by (simp add: DoAnalysis_def mainPackages_eq store_analysis_def)
  from none some show ?thesis by blast
qed

text \<open>
  The theorem at a program of five packages: a package \<^verbatim>\<open>util\<close>, a nil entry, the main
  package \<^verbatim>\<open>a/cmd\<close>, a package named \<^verbatim>\<open>main\<close> without a function \<^verbatim>\<open>main\<close>, and the main
  package \<^verbatim>\<open>a/tool\<close>. The analysis here answers with one edge per root.
\<close>

theorem DoAnalysis_rta_witness:
  "DoAnalysis
     \<lparr>packages_Load = (\<lambda>tests dir bflags args. Inr [LoadedPackage ''a/cmd'', LoadedPackage ''a/util'']),
      packages_PrintErrors = (\<lambda>initial. 0),
      ssautil_AllPackages = (\<lambda>initial.
        (\<lparr>imported = [],
          AllPackages =
            [Some \<lparr>Pkg = \<lparr>Name = ''util'', Path = ''a/util''\<rparr>, Members = []\<rparr>,
             None,
             Some \<lparr>Pkg = \<lparr>Name = ''main'', Path = ''a/cmd''\<rparr>,
                   Members = [(''main'', Function ''a/cmd'' ''main'')]\<rparr>,
             Some \<lparr>Pkg = \<lparr>Name = ''main'', Path = ''a/lib''\<rparr>, Members = []\<rparr>,
             Some \<lparr>Pkg = \<lparr>Name = ''main'', Path = ''a/tool''\<rparr>,
                   Members = [(''main'', Function ''a/tool'' ''main'')]\<rparr>]\<rparr>,
         [])),
      static_CallGraph = (\<lambda>prg. Graph []),
      cha_CallGraph = (\<lambda>prg. Graph []),
      rta_Analyze = (\<lambda>roots reflection.
        Graph (map (\<lambda>r. (case r of None \<Rightarrow> Function '''' '''' | Some f \<Rightarrow> f,
                          case r of None \<Rightarrow> Function '''' '''' | Some f \<Rightarrow> f)) roots))\<rparr>
     [] (NewAnalysis '''') CallGraphTypeRta '''' False [''./...'']
   = (Inr None,
      (NewAnalysis '''')
        \<lparr>prog := Some
           \<lparr>imported = [],
            AllPackages =
              [Some \<lparr>Pkg = \<lparr>Name = ''util'', Path = ''a/util''\<rparr>, Members = []\<rparr>,
               None,
               Some \<lparr>Pkg = \<lparr>Name = ''main'', Path = ''a/cmd''\<rparr>,
                     Members = [(''main'', Function ''a/cmd'' ''main'')]\<rparr>,
               Some \<lparr>Pkg = \<lparr>Name = ''main'', Path = ''a/lib''\<rparr>, Members = []\<rparr>,
               Some \<lparr>Pkg = \<lparr>Name = ''main'', Path = ''a/tool''\<rparr>,
                     Members = [(''main'', Function ''a/tool'' ''main'')]\<rparr>]\<rparr>,
         pkgs := [],
         mainPkg := Some \<lparr>Pkg = \<lparr>Name = ''main'', Path = ''a/cmd''\<rparr>,
                     Members = [(''main'', Function ''a/cmd'' ''main'')]\<rparr>,
         callgraph := Some (Graph [(Function ''a/cmd'' ''main'', Function ''a/cmd'' ''main''),
                                   (Function ''a/tool'' ''main'', Function ''a/tool'' ''main'')])\<rparr>)"
proof -
  let ?prg = "\<lparr>imported = [],
          AllPackages =
            [Some \<lparr>Pkg = \<lparr>Name = ''util'', Path = ''a/util''\<rparr>, Members = []\<rparr>,
             None,
             Some \<lparr>Pkg = \<lparr>Name = ''main'', Path = ''a/cmd''\<rparr>,
                   Members = [(''main'', Function ''a/cmd'' ''main'')]\<rparr>,
             Some \<lparr>Pkg = \<lparr>Name = ''main'', Path = ''a/lib''\<rparr>, Members = []\<rparr>,
             Some \<lparr>Pkg = \<lparr>Name = ''main'', Path = ''a/tool''\<rparr>,
                   Members = [(''main'', Function ''a/tool'' ''main'')]\<rparr>]\<rparr>"
  let ?tc = "\<lparr>packages_Load = (\<lambda>tests dir bflags args. Inr [LoadedPackage ''a/cmd'', LoadedPackage ''a/util'']),
      packages_PrintErrors = (\<lambda>initial. 0),
      ssautil_AllPackages = (\<lambda>initial. (?prg, [])),
      static_CallGraph = (\<lambda>prg. Graph []),
      cha_CallGraph = (\<lambda>prg. Graph []),
      rta_Analyze = (\<lambda>roots reflection.
        Graph (map (\<lambda>r. (case r of None \<Rightarrow> Function '''' '''' | Some f \<Rightarrow> f,
                          case r of None \<Rightarrow> Function '''' '''' | Some f \<Rightarrow> f)) roots))\<rparr>"
  have h1: "packages_Load ?tc False '''' (getBuildFlags []) [''./...'']
              = Inr [LoadedPackage ''a/cmd'', LoadedPackage ''a/util'']" by simp
  have h2: "packages_PrintErrors ?tc [LoadedPackage ''a/cmd'', LoadedPackage ''a/util''] = 0"
    by simp
  have h3: "ssautil_AllPackages ?tc [LoadedPackage ''a/cmd'', LoadedPackage ''a/util''] = (?prg, [])"
    by simp
  have m: "main_packages_of (AllPackages ?prg) =
             \<lparr>Pkg = \<lparr>Name = ''main'', Path = ''a/cmd''\<rparr>,
               Members = [(''main'', Function ''a/cmd'' ''main'')]\<rparr> #
             [\<lparr>Pkg = \<lparr>Name = ''main'', Path = ''a/tool''\<rparr>,
               Members = [(''main'', Function ''a/tool'' ''main'')]\<rparr>]"
    by (simp add: main_packages_of_def is_main_package_def Func_def List.map_filter_simps)
  from DoAnalysis_rta [OF h1 h2 h3, of "NewAnalysis ''''"] m show ?thesis
    by (simp add: Func_def)
qed

text \<open>A program without a main package: the session is unchanged.\<close>

lemma DoAnalysis_rta_none_example:
  "DoAnalysis
     \<lparr>packages_Load = (\<lambda>tests dir bflags args. Inr [LoadedPackage ''a/lib'']),
      packages_PrintErrors = (\<lambda>initial. 0),
      ssautil_AllPackages = (\<lambda>initial.
        (\<lparr>imported = [],
          AllPackages =
            [Some \<lparr>Pkg = \<lparr>Name = ''main'', Path = ''a/lib''\<rparr>, Members = []\<rparr>,
             Some \<lparr>Pkg = \<lparr>Name = ''util'', Path = ''a/util''\<rparr>,
                   Members = [(''main'', Function ''a/util'' ''main'')]\<rparr>]\<rparr>,
         [])),
      static_CallGraph = (\<lambda>prg. Graph []),
      cha_CallGraph = (\<lambda>prg. Graph []),
      rta_Analyze = (\<lambda>roots reflection. Graph [])\<rparr>
     [] (NewAnalysis '''') CallGraphTypeRta '''' False [''./...'']
   = (Inr (Some (errorString ''no main packages'')), NewAnalysis '''')"
  by (simp add: DoAnalysis_def mainPackages_def Func_def CallGraphTypeRta_def
      CallGraphTypeStatic_def CallGraphTypeCha_def getBuildFlags_def getBuildFlagTags_def)

subsection \<open>Looking up a cached image\<close>

text \<open>
  Claim C5, as amended. In a session with options, \<^verbatim>\<open>FindCachedImg\<close> returns the empty
  string when the cache directory is empty or the refresh flag is set, whatever the
  file system holds. Otherwise it looks at the path
  \<^verbatim>\<open><cacheDir>/<focusNameOrAll>.<outputFormat>\<close> (joined and cleaned, never empty; the
  name is \<^verbatim>\<open>all\<close> for an empty focus):
  \<^item> it returns that path when \<^verbatim>\<open>os.Stat\<close> finds a node there, of whatever kind;
  \<^item> it returns the empty string when \<^verbatim>\<open>os.Stat\<close> fails, whether there is no such node
    or the node is there and cannot be reached (a directory on the way may not be
    searched, the path leads through a file, a name is too long).
\<close>

theorem FindCachedImg_result:
  assumes "opts a = Some ro"
  shows
    "(cacheDir ro = '''' \<or> refresh ro \<longrightarrow> FindCachedImg a fs = Inr '''') \<and>
     (cacheDir ro \<noteq> '''' \<and> \<not> refresh ro \<longrightarrow>
        (\<forall>n. os_Stat fs (cache_path a ro) = Inr n \<longrightarrow>
           FindCachedImg a fs = Inr (cache_path a ro)) \<and>
        (\<forall>err. os_Stat fs (cache_path a ro) = Inl err \<longrightarrow> FindCachedImg a fs = Inr '''')) \<and>
     cache_path a ro \<noteq> '''' \<and>
     (focus ro = '''' \<longrightarrow>
        cache_path a ro = filepath_Clean (cacheDir ro @ ''/all.'' @ outputFormat a))"
  using FindCachedImg_eq [OF assms, of fs]
  by (simp add: cache_path_def filepath_Clean_nonempty focus_or_all_def)

text \<open>
  The theorem at the cache directory \<^verbatim>\<open>/tmp/c\<close> holding \<^verbatim>\<open>all.svg\<close>: a hit without a
  focus, a miss with the focus \<^verbatim>\<open>foo\<close>, and no hit once the refresh flag is set.
\<close>

theorem FindCachedImg_result_witness:
  "FindCachedImg
     (OptsSetup (NewAnalysis ''svg'') ''/tmp/c'' '''' ''pkg'' '''' '''' '''' False False False ''cha'')
     \<lparr>nodes = [[] \<mapsto> Directory all_access, [''tmp''] \<mapsto> Directory all_access,
               [''tmp'', ''c''] \<mapsto> Directory all_access,
               [''tmp'', ''c'', ''all.svg''] \<mapsto> RegularFile file_access ''<svg/>''],
      cwd = []\<rparr> = Inr ''/tmp/c/all.svg'' \<and>
   FindCachedImg
     (OptsSetup (NewAnalysis ''svg'') ''/tmp/c'' ''foo'' ''pkg'' '''' '''' '''' False False False ''cha'')
     \<lparr>nodes = [[] \<mapsto> Directory all_access, [''tmp''] \<mapsto> Directory all_access,
               [''tmp'', ''c''] \<mapsto> Directory all_access,
               [''tmp'', ''c'', ''all.svg''] \<mapsto> RegularFile file_access ''<svg/>''],
      cwd = []\<rparr> = Inr '''' \<and>
   FindCachedImg
     ((NewAnalysis ''svg'')
        \<lparr>opts := Some \<lparr>cacheDir = ''/tmp/c'', focus = '''', group = [''pkg''],
              ignore = [], include' = [], limit = [],
              nointer = False, refresh = True, nostd = False, algo = []\<rparr>\<rparr>)
     \<lparr>nodes = [[] \<mapsto> Directory all_access, [''tmp''] \<mapsto> Directory all_access,
               [''tmp'', ''c''] \<mapsto> Directory all_access,
               [''tmp'', ''c'', ''all.svg''] \<mapsto> RegularFile file_access ''<svg/>''],
      cwd = []\<rparr> = Inr ''''"
proof -
  let ?fs = "\<lparr>nodes = [[] \<mapsto> Directory all_access, [''tmp''] \<mapsto> Directory all_access,
               [''tmp'', ''c''] \<mapsto> Directory all_access,
               [''tmp'', ''c'', ''all.svg''] \<mapsto> RegularFile file_access ''<svg/>''],
      cwd = []\<rparr>"
  let ?r1 = "\<lparr>cacheDir = ''/tmp/c'', focus = '''', group = [''pkg''],
              ignore = [''''], include' = [''''], limit = [''''],
              nointer = False, refresh = False, nostd = False, algo = []\<rparr>"
  let ?r2 = "\<lparr>cacheDir = ''/tmp/c'', focus = ''foo'', group = [''pkg''],
              ignore = [''''], include' = [''''], limit = [''''],
              nointer = False, refresh = False, nostd = False, algo = []\<rparr>"
  let ?a1 = "OptsSetup (NewAnalysis ''svg'') ''/tmp/c'' '''' ''pkg'' '''' '''' '''' False False False ''cha''"
  let ?a2 = "OptsSetup (NewAnalysis ''svg'') ''/tmp/c'' ''foo'' ''pkg'' '''' '''' '''' False False False ''cha''"
  have o1: "opts ?a1 = Some ?r1" and o2: "opts ?a2 = Some ?r2"
    by (simp_all add: OptsSetup_def NewAnalysis_def)
  have p1: "cache_path ?a1 ?r1 = ''/tmp/c/all.svg''" by code_simp
  have p2: "cache_path ?a2 ?r2 = ''/tmp/c/foo.svg''" by code_simp
  have l1: "os_Stat ?fs ''/tmp/c/all.svg'' = Inr (RegularFile file_access ''<svg/>'')" by code_simp
  have l2: "os_Stat ?fs ''/tmp/c/foo.svg'' = Inl (PathError ''stat'' ''/tmp/c/foo.svg'' ENOENT)"
    by code_simp
  have d: "cacheDir ?r1 \<noteq> []" "\<not> refresh ?r1" "cacheDir ?r2 \<noteq> []" "\<not> refresh ?r2"
    by simp_all
  have e1: "os_Stat ?fs (cache_path ?a1 ?r1) = Inr (RegularFile file_access ''<svg/>'')"
    unfolding p1 by (rule l1)
  have e2: "os_Stat ?fs (cache_path ?a2 ?r2) = Inl (PathError ''stat'' ''/tmp/c/foo.svg'' ENOENT)"
    unfolding p2 by (rule l2)
  from FindCachedImg_result [OF o1, of ?fs] d e1
  have "FindCachedImg ?a1 ?fs = Inr (cache_path ?a1 ?r1)" by blast
  then have c1: "FindCachedImg ?a1 ?fs = Inr ''/tmp/c/all.svg''" unfolding p1 .
  from FindCachedImg_result [OF o2, of ?fs] d e2
  have c2: "FindCachedImg ?a2 ?fs = Inr []" by blast
  let ?r3 = "\<lparr>cacheDir = ''/tmp/c'', focus = '''', group = [''pkg''],
              ignore = [], include' = [], limit = [],
              nointer = False, refresh = True, nostd = False, algo = []\<rparr>"
  let ?a3 = "(NewAnalysis ''svg'')\<lparr>opts := Some ?r3\<rparr>"
  have o3: "opts ?a3 = Some ?r3" by simp
  have "refresh ?r3" by simp
  with FindCachedImg_result [OF o3, of ?fs]
  have c3: "FindCachedImg ?a3 ?fs = Inr []" by blast
  from c1 c2 c3 show ?thesis by blast
qed

text \<open>
  The claim as it was stated fails where the file exists and cannot be reached: the
  cache directory \<^verbatim>\<open>/tmp/c\<close> holds \<^verbatim>\<open>all.svg\<close>, and the process may not search the
  directory. \<^verbatim>\<open>os.Stat\<close> fails with \<^verbatim>\<open>permission denied\<close>, which \<^verbatim>\<open>pathExists\<close> passes
  on as an error, and \<^verbatim>\<open>FindCachedImg\<close> returns the empty string.
\<close>

theorem FindCachedImg_result_counterexample:
  "nodes \<lparr>nodes = [[] \<mapsto> Directory all_access, [''tmp''] \<mapsto> Directory all_access,
                   [''tmp'', ''c''] \<mapsto>
                     Directory \<lparr>may_read = False, may_write = False, may_search = False\<rparr>,
                   [''tmp'', ''c'', ''all.svg''] \<mapsto> RegularFile file_access ''<svg/>''],
          cwd = []\<rparr> [''tmp'', ''c'', ''all.svg''] = Some (RegularFile file_access ''<svg/>'') \<and>
   os_Stat \<lparr>nodes = [[] \<mapsto> Directory all_access, [''tmp''] \<mapsto> Directory all_access,
                   [''tmp'', ''c''] \<mapsto>
                     Directory \<lparr>may_read = False, may_write = False, may_search = False\<rparr>,
                   [''tmp'', ''c'', ''all.svg''] \<mapsto> RegularFile file_access ''<svg/>''],
          cwd = []\<rparr> ''/tmp/c/all.svg'' = Inl (PathError ''stat'' ''/tmp/c/all.svg'' EACCES) \<and>
   FindCachedImg
     (OptsSetup (NewAnalysis ''svg'') ''/tmp/c'' '''' ''pkg'' '''' '''' '''' False False False ''cha'')
     \<lparr>nodes = [[] \<mapsto> Directory all_access, [''tmp''] \<mapsto> Directory all_access,
               [''tmp'', ''c''] \<mapsto>
                 Directory \<lparr>may_read = False, may_write = False, may_search = False\<rparr>,
               [''tmp'', ''c'', ''all.svg''] \<mapsto> RegularFile file_access ''<svg/>''],
      cwd = []\<rparr> = Inr ''''"
  by code_simp

subsection \<open>Writing a cached image\<close>




subsection \<open>Errors of a request\<close>

text \<open>
  Claim C7, as amended. Take a request that is handled (its path is \<^verbatim>\<open>/\<close> or ends in
  \<^verbatim>\<open>.svg\<close>), whose overrides apply without a panic and for which no cached image is
  found. Every error of the steps that follow is answered with an HTTP error, and the
  handler ends by responding; none of them terminates the process:
  \<^item> an error of \<^verbatim>\<open>ProcessListArgs\<close> (an invalid grouping token) gives status 400 with
    the body \<^verbatim>\<open>invalid parameters\<close>;
  \<^item> every error of \<^verbatim>\<open>Render\<close> gives status 500 with the message of the error; this
    includes the focus errors, so an ambiguous focus target gives status 500, not 400;
  \<^item> an error returned by the image conversion gives status 500;
  \<^item> an error of \<^verbatim>\<open>CacheImg\<close> gives status 400 with the body \<^verbatim>\<open>cache img error: \<close>
    followed by the message.
\<close>

theorem handler_error_responses:
  assumes "URL_Path r = ''/'' \<or> strings_HasSuffix (URL_Path r) ''.svg''"
    and "OverrideByHTTP a r = (Inr (), a1)"
    and "FindCachedImg a1 fs = Inr ''''"
  shows
    "(\<forall>e a2. ProcessListArgs a1 = (Inr (Some e), a2) \<longrightarrow>
        fst (handler PrintOutput DotToImage gv fmt r (Some a) fs) =
          Responded (http_Error ''invalid parameters'' 400)) \<and>
     (\<forall>a2 stderr err.
        ProcessListArgs a1 = (Inr None, a2) \<and>
        Render PrintOutput a2 (Minlen a2) (PrintOptions a2) = Inr (stderr, Inl err) \<longrightarrow>
        fst (handler PrintOutput DotToImage gv fmt r (Some a) fs) =
          Responded (http_Error (Error err) 500)) \<and>
     (\<forall>a2 ro prg.
        ProcessListArgs a1 = (Inr None, a2) \<and>
        opts a2 = Some ro \<and> prog a2 = Some prg \<and> focus ro \<noteq> '''' \<and>
        ImportedPackage prg (focus ro) = None \<and> \<not> strings_Contains (focus ro) ''/'' \<and>
        1 < length (paths_named (focus ro) (pkgs a2)) \<longrightarrow>
        fst (handler PrintOutput DotToImage gv fmt r (Some a) fs) =
          Responded
            (http_Error (''focus failed, found multiple packages with name: '' @ focus ro) 500)) \<and>
     (\<forall>a2 stderr dot err fs1.
        ProcessListArgs a1 = (Inr None, a2) \<and>
        Render PrintOutput a2 (Minlen a2) (PrintOptions a2) = Inr (stderr, Inr dot) \<and>
        FormValue r ''format'' \<noteq> ''dot'' \<and>
        DotToImage gv '''' fmt dot fs = DotReturned (Inl err) fs1 \<longrightarrow>
        fst (handler PrintOutput DotToImage gv fmt r (Some a) fs) =
          Responded (http_Error (Error err) 500)) \<and>
     (\<forall>a2 stderr dot img fs1 err fs2.
        ProcessListArgs a1 = (Inr None, a2) \<and>
        Render PrintOutput a2 (Minlen a2) (PrintOptions a2) = Inr (stderr, Inr dot) \<and>
        FormValue r ''format'' \<noteq> ''dot'' \<and>
        DotToImage gv '''' fmt dot fs = DotReturned (Inr img) fs1 \<and>
        CacheImg a2 img fs1 = (Inr (Some err), fs2) \<longrightarrow>
        fst (handler PrintOutput DotToImage gv fmt r (Some a) fs) =
          Responded (http_Error (''cache img error: '' @ Error err) 400))"
proof -
  have p: "\<not> (URL_Path r \<noteq> ''/'' \<and> \<not> strings_HasSuffix (URL_Path r) ''.svg'')"
    using assms(1) by blast
  have c1: "fst (handler PrintOutput DotToImage gv fmt r (Some a) fs) =
          Responded (http_Error ''invalid parameters'' 400)"
    if "ProcessListArgs a1 = (Inr (Some e), a2)" for e a2
    using p assms(2,3) that by (simp add: handler_def StatusBadRequest_def)
  have c2: "fst (handler PrintOutput DotToImage gv fmt r (Some a) fs) =
          Responded (http_Error (Error err) 500)"
    if "ProcessListArgs a1 = (Inr None, a2) \<and>
        Render PrintOutput a2 (Minlen a2) (PrintOptions a2) = Inr (stderr, Inl err)"
    for a2 stderr err
    using p assms(2,3) that by (simp add: handler_def StatusInternalServerError_def)
  have c3: "fst (handler PrintOutput DotToImage gv fmt r (Some a) fs) =
          Responded
            (http_Error (''focus failed, found multiple packages with name: '' @ focus ro) 500)"
    if h: "ProcessListArgs a1 = (Inr None, a2) \<and>
        opts a2 = Some ro \<and> prog a2 = Some prg \<and> focus ro \<noteq> '''' \<and>
        ImportedPackage prg (focus ro) = None \<and> \<not> strings_Contains (focus ro) ''/'' \<and>
        1 < length (paths_named (focus ro) (pkgs a2))" for a2 ro prg
  proof -
    from h have o: "opts a2 = Some ro" and g: "prog a2 = Some prg" and f: "focus ro \<noteq> []"
      and i: "ImportedPackage prg (focus ro) = None"
      and c: "\<not> strings_Contains (focus ro) ''/''"
      and l: "1 < length (paths_named (focus ro) (pkgs a2))"
      by blast+
    note Render_ambiguous [OF o g f i c l, of PrintOutput "Minlen a2" "PrintOptions a2"]
    with h c2 [of a2 "report_loop (paths_named (focus ro) (pkgs a2))"
        "errorString (''focus failed, found multiple packages with name: '' @ focus ro)"]
    show ?thesis by simp
  qed
  have c4: "fst (handler PrintOutput DotToImage gv fmt r (Some a) fs) =
          Responded (http_Error (Error err) 500)"
    if "ProcessListArgs a1 = (Inr None, a2) \<and>
        Render PrintOutput a2 (Minlen a2) (PrintOptions a2) = Inr (stderr, Inr dot) \<and>
        FormValue r ''format'' \<noteq> ''dot'' \<and>
        DotToImage gv '''' fmt dot fs = DotReturned (Inl err) fs1"
    for a2 stderr dot err fs1
    using p assms(2,3) that by (simp add: handler_def StatusInternalServerError_def)
  have c5: "fst (handler PrintOutput DotToImage gv fmt r (Some a) fs) =
          Responded (http_Error (''cache img error: '' @ Error err) 400)"
    if "ProcessListArgs a1 = (Inr None, a2) \<and>
        Render PrintOutput a2 (Minlen a2) (PrintOptions a2) = Inr (stderr, Inr dot) \<and>
        FormValue r ''format'' \<noteq> ''dot'' \<and>
        DotToImage gv '''' fmt dot fs = DotReturned (Inr img) fs1 \<and>
        CacheImg a2 img fs1 = (Inr (Some err), fs2)"
    for a2 stderr dot img fs1 err fs2
    using p assms(2,3) that by (simp add: handler_def StatusBadRequest_def)
  from c1 c2 c3 c4 c5 show ?thesis by blast
qed

text \<open>
  The theorem at a request \<^verbatim>\<open>/?f=util\<close> to a session whose two loaded packages are both
  named \<^verbatim>\<open>util\<close>.
\<close>

theorem handler_error_responses_witness:
  "fst (handler (\<lambda>x. Inr ''digraph {}'') (\<lambda>g outfname f d fs. DotFatal) False ''svg''
          \<lparr>URL_Path = ''/'', Form = [(''f'', [''util''])]\<rparr>
          (Some (store_analysis
            (OptsSetup (NewAnalysis '''') '''' ''main'' ''pkg'' '''' '''' '''' False False False ''cha'')
            \<lparr>imported = [(''a/util'', \<lparr>Pkg = \<lparr>Name = ''util'', Path = ''a/util''\<rparr>, Members = []\<rparr>),
                         (''b/util'', \<lparr>Pkg = \<lparr>Name = ''util'', Path = ''b/util''\<rparr>, Members = []\<rparr>)],
             AllPackages = []\<rparr>
            [\<lparr>Pkg = \<lparr>Name = ''util'', Path = ''a/util''\<rparr>, Members = []\<rparr>,
             \<lparr>Pkg = \<lparr>Name = ''util'', Path = ''b/util''\<rparr>, Members = []\<rparr>]
            None (Graph [])))
          \<lparr>nodes = Map.empty, cwd = []\<rparr>)
   = Responded (http_Error ''focus failed, found multiple packages with name: util'' 500)"
proof -
  let ?u1 = "\<lparr>Pkg = \<lparr>Name = ''util'', Path = ''a/util''\<rparr>, Members = []\<rparr>"
  let ?u2 = "\<lparr>Pkg = \<lparr>Name = ''util'', Path = ''b/util''\<rparr>, Members = []\<rparr>"
  let ?prg = "\<lparr>imported = [(''a/util'', ?u1), (''b/util'', ?u2)], AllPackages = []\<rparr>"
  let ?a = "store_analysis
            (OptsSetup (NewAnalysis '''') '''' ''main'' ''pkg'' '''' '''' '''' False False False ''cha'')
            ?prg [?u1, ?u2] None (Graph [])"
  let ?r = "\<lparr>URL_Path = ''/'', Form = [(''f'', [''util''])]\<rparr>"
  let ?ro1 = "\<lparr>cacheDir = '''', focus = ''util'', group = [''pkg''],
                ignore = [''''], include' = [''''], limit = [''''],
                nointer = False, refresh = False, nostd = False, algo = []\<rparr>"
  let ?ro2 = "\<lparr>cacheDir = '''', focus = ''util'', group = [''pkg''],
                ignore = [], include' = [], limit = [],
                nointer = False, refresh = False, nostd = False, algo = []\<rparr>"
  let ?a1 = "\<lparr>opts = Some ?ro1, prog = Some ?prg, pkgs = [?u1, ?u2],
       mainPkg = None, callgraph = Some (Graph []), outputFormat = '''',
       Minlen = 0, PrintOptions = []\<rparr>"
  let ?a2 = "\<lparr>opts = Some ?ro2, prog = Some ?prg, pkgs = [?u1, ?u2],
       mainPkg = None, callgraph = Some (Graph []), outputFormat = '''',
       Minlen = 0, PrintOptions = []\<rparr>"
  have h1: "URL_Path ?r = ''/'' \<or> strings_HasSuffix (URL_Path ?r) ''.svg''" by simp
  have h2: "OverrideByHTTP ?a ?r = (Inr (), ?a1)" by (rule example_Override_focus)
  have h3: "FindCachedImg ?a1 \<lparr>nodes = Map.empty, cwd = []\<rparr> = Inr ''''" by (simp add: FindCachedImg_def)
  have h4: "ProcessListArgs ?a1 = (Inr None, ?a2)" by (rule example_Process_focus)
  have h5: "opts ?a2 = Some ?ro2 \<and> prog ?a2 = Some ?prg \<and> focus ?ro2 \<noteq> '''' \<and>
        ImportedPackage ?prg (focus ?ro2) = None \<and> \<not> strings_Contains (focus ?ro2) ''/'' \<and>
        1 < length (paths_named (focus ?ro2) (pkgs ?a2))"
    by (simp add: ImportedPackage_def paths_named_def)
  from handler_error_responses [OF h1 h2 h3,
      of "\<lambda>x. Inr ''digraph {}''" "\<lambda>g outfname f d fs. DotFatal" False "''svg''"] h4 h5
  have "fst (handler (\<lambda>x. Inr ''digraph {}'') (\<lambda>g outfname f d fs. DotFatal) False ''svg''
              ?r (Some ?a) \<lparr>nodes = Map.empty, cwd = []\<rparr>) =
          Responded
            (http_Error (''focus failed, found multiple packages with name: '' @ focus ?ro2) 500)"
    by blast
  then show ?thesis by simp
qed

text \<open>
  The claim as it was stated fails at that request: the focus target is ambiguous (two
  packages have the name), and the response has the status of an internal error, which
  is not the status of a bad request.
\<close>

theorem handler_error_responses_counterexample:
  "paths_named ''util''
     [\<lparr>Pkg = \<lparr>Name = ''util'', Path = ''a/util''\<rparr>, Members = []\<rparr>,
      \<lparr>Pkg = \<lparr>Name = ''util'', Path = ''b/util''\<rparr>, Members = []\<rparr>] = [''a/util'', ''b/util''] \<and>
   fst (handler (\<lambda>x. Inr ''digraph {}'') (\<lambda>g outfname f d fs. DotFatal) False ''svg''
          \<lparr>URL_Path = ''/'', Form = [(''f'', [''util''])]\<rparr>
          (Some (store_analysis
            (OptsSetup (NewAnalysis '''') '''' ''main'' ''pkg'' '''' '''' '''' False False False ''cha'')
            \<lparr>imported = [(''a/util'', \<lparr>Pkg = \<lparr>Name = ''util'', Path = ''a/util''\<rparr>, Members = []\<rparr>),
                         (''b/util'', \<lparr>Pkg = \<lparr>Name = ''util'', Path = ''b/util''\<rparr>, Members = []\<rparr>)],
             AllPackages = []\<rparr>
            [\<lparr>Pkg = \<lparr>Name = ''util'', Path = ''a/util''\<rparr>, Members = []\<rparr>,
             \<lparr>Pkg = \<lparr>Name = ''util'', Path = ''b/util''\<rparr>, Members = []\<rparr>]
            None (Graph [])))
          \<lparr>nodes = Map.empty, cwd = []\<rparr>)
   = Responded (http_Error ''focus failed, found multiple packages with name: util''
                  StatusInternalServerError) \<and>
   StatusInternalServerError \<noteq> StatusBadRequest"
proof -
  let ?u1 = "\<lparr>Pkg = \<lparr>Name = ''util'', Path = ''a/util''\<rparr>, Members = []\<rparr>"
  let ?u2 = "\<lparr>Pkg = \<lparr>Name = ''util'', Path = ''b/util''\<rparr>, Members = []\<rparr>"
  let ?prg = "\<lparr>imported = [(''a/util'', ?u1), (''b/util'', ?u2)], AllPackages = []\<rparr>"
  let ?ro2 = "\<lparr>cacheDir = '''', focus = ''util'', group = [''pkg''],
                ignore = [], include' = [], limit = [],
                nointer = False, refresh = False, nostd = False, algo = []\<rparr>"
  let ?a2 = "\<lparr>opts = Some ?ro2, prog = Some ?prg, pkgs = [?u1, ?u2],
       mainPkg = None, callgraph = Some (Graph []), outputFormat = '''',
       Minlen = 0, PrintOptions = []\<rparr>"
  have r: "Render (\<lambda>x. Inr ''digraph {}'') ?a2 0 [] =
             Inr (report_loop (paths_named (focus ?ro2) (pkgs ?a2)),
                  Inl (errorString
                    (''focus failed, found multiple packages with name: '' @ focus ?ro2)))"
    by (rule Render_ambiguous [where prg = ?prg])
       (simp_all add: ImportedPackage_def paths_named_def)
  show ?thesis
    by (simp add: handler_def example_Override_focus example_Process_focus FindCachedImg_def r
        paths_named_def StatusInternalServerError_def StatusBadRequest_def)
qed

subsection \<open>The version flag\<close>

text \<open>
  Claim C8 at a failing input. The command line \<^verbatim>\<open>go-callvis -version\<close> does not print
  the version and exit with status 0: the flag \<^verbatim>\<open>version\<close> is defined only after
  \<^verbatim>\<open>flag.Parse\<close> has run, so parsing fails on a flag that is not defined and the
  program exits with status 2. (By \<open>main_never_prints_version\<close> no command line reaches
  the branch that prints the version.)
\<close>

theorem main_version_flag_failing_input:
  "main conv [''-version''] = Exit 2 (FlagError (NotDefined ''version''))"
proof -
  have n: "flag_name ''version'' = ''version''" by (simp add: flag_name_def)
  have "Parse conv flags_at_Parse [''-version''] = Inl (NotDefined ''version'')"
    by (simp add: n version_not_defined_at_Parse Let_def)
  then show ?thesis by (simp add: main_def)
qed

subsection \<open>Overrides after the lists were emptied\<close>

text \<open>
  Claim C9. Let \<^verbatim>\<open>ProcessListArgs\<close> return without an error. If the first element of
  the ignore list (the configuration string) held no token that is not blank, as the
  default empty string does, the ignore list is now empty, and every later
  \<^verbatim>\<open>OverrideByHTTP\<close> whose request has a non-empty \<^verbatim>\<open>ignore\<close> parameter panics with an
  index out of range (index 0 of a slice of length 0); the handler of a request for the
  path \<^verbatim>\<open>/\<close> calls it first and so panics too. The same holds for the include list
  with the parameter \<^verbatim>\<open>include\<close> and for the limit list with the parameter \<^verbatim>\<open>limit\<close>.
\<close>

theorem emptied_list_override_panics:
  assumes "opts a = Some ro" and "fst (ProcessListArgs a) = Inr None"
    and "a' = snd (ProcessListArgs a)"
  shows
    "(ignore ro \<noteq> [] \<and> nonblank_tokens (hd (ignore ro)) = [] \<longrightarrow>
        map_option ignore (opts a') = Some [] \<and>
        (\<forall>r. FormValue r ''ignore'' \<noteq> '''' \<longrightarrow>
           fst (OverrideByHTTP a' r) = Inl (IndexOutOfRange 0 0) \<and>
           (URL_Path r = ''/'' \<longrightarrow>
              fst (handler PrintOutput DotToImage gv fmt r (Some a') fs)
                = Panicked (IndexOutOfRange 0 0)))) \<and>
     (include' ro \<noteq> [] \<and> nonblank_tokens (hd (include' ro)) = [] \<longrightarrow>
        map_option include' (opts a') = Some [] \<and>
        (\<forall>r. FormValue r ''include'' \<noteq> '''' \<longrightarrow>
           fst (OverrideByHTTP a' r) = Inl (IndexOutOfRange 0 0) \<and>
           (URL_Path r = ''/'' \<longrightarrow>
              fst (handler PrintOutput DotToImage gv fmt r (Some a') fs)
                = Panicked (IndexOutOfRange 0 0)))) \<and>
     (limit ro \<noteq> [] \<and> nonblank_tokens (hd (limit ro)) = [] \<longrightarrow>
        map_option limit (opts a') = Some [] \<and>
        (\<forall>r. FormValue r ''limit'' \<noteq> '''' \<longrightarrow>
           fst (OverrideByHTTP a' r) = Inl (IndexOutOfRange 0 0) \<and>
           (URL_Path r = ''/'' \<longrightarrow>
              fst (handler PrintOutput DotToImage gv fmt r (Some a') fs)
                = Panicked (IndexOutOfRange 0 0))))"
proof -
  from ProcessListArgs_ok_state [OF assms(1,2)] assms(3)
  obtain g where g: "g \<noteq> []"
    and a': "a' = a\<lparr>opts := Some (ro\<lparr>group := g, ignore := split_paths (ignore ro),
                                     include' := split_paths (include' ro),
                                     limit := split_paths (limit ro)\<rparr>)\<rparr>"
    by auto
  let ?ro' = "ro\<lparr>group := g, ignore := split_paths (ignore ro),
                 include' := split_paths (include' ro), limit := split_paths (limit ro)\<rparr>"
  have o': "opts a' = Some ?ro'" by (simp add: a')
  have g': "group ?ro' \<noteq> []" using g by simp
  have empt: "xs \<noteq> [] \<Longrightarrow> nonblank_tokens (hd xs) = [] \<Longrightarrow> split_paths xs = []" for xs
    by (cases xs) (simp_all add: split_paths_Cons)
  have c1: "map_option ignore (opts a') = Some [] \<and>
        (\<forall>r. FormValue r ''ignore'' \<noteq> '''' \<longrightarrow>
           fst (OverrideByHTTP a' r) = Inl (IndexOutOfRange 0 0) \<and>
           (URL_Path r = ''/'' \<longrightarrow>
              fst (handler PrintOutput DotToImage gv fmt r (Some a') fs)
                = Panicked (IndexOutOfRange 0 0)))"
    if "ignore ro \<noteq> []" "nonblank_tokens (hd (ignore ro)) = []"
  proof -
    have e: "ignore ?ro' = []" using empt [OF that] by simp
    have "fst (OverrideByHTTP a' r) = Inl (IndexOutOfRange 0 0)"
      if "FormValue r ''ignore'' \<noteq> ''''" for r
      using OverrideByHTTP_panic_ignore [OF o' g' e that] .
    then show ?thesis using e o' by (auto intro: handler_panics)
  qed
  have c2: "map_option include' (opts a') = Some [] \<and>
        (\<forall>r. FormValue r ''include'' \<noteq> '''' \<longrightarrow>
           fst (OverrideByHTTP a' r) = Inl (IndexOutOfRange 0 0) \<and>
           (URL_Path r = ''/'' \<longrightarrow>
              fst (handler PrintOutput DotToImage gv fmt r (Some a') fs)
                = Panicked (IndexOutOfRange 0 0)))"
    if "include' ro \<noteq> []" "nonblank_tokens (hd (include' ro)) = []"
  proof -
    have e: "include' ?ro' = []" using empt [OF that] by simp
    have "fst (OverrideByHTTP a' r) = Inl (IndexOutOfRange 0 0)"
      if "FormValue r ''include'' \<noteq> ''''" for r
      using OverrideByHTTP_panic_include [OF o' g' e that] .
    then show ?thesis using e o' by (auto intro: handler_panics)
  qed
  have c3: "map_option limit (opts a') = Some [] \<and>
        (\<forall>r. FormValue r ''limit'' \<noteq> '''' \<longrightarrow>
           fst (OverrideByHTTP a' r) = Inl (IndexOutOfRange 0 0) \<and>
           (URL_Path r = ''/'' \<longrightarrow>
              fst (handler PrintOutput DotToImage gv fmt r (Some a') fs)
                = Panicked (IndexOutOfRange 0 0)))"
    if "limit ro \<noteq> []" "nonblank_tokens (hd (limit ro)) = []"
  proof -
    have e: "limit ?ro' = []" using empt [OF that] by simp
    have "fst (OverrideByHTTP a' r) = Inl (IndexOutOfRange 0 0)"
      if "FormValue r ''limit'' \<noteq> ''''" for r
      using OverrideByHTTP_panic_limit [OF o' g' e that] .
    then show ?thesis using e o' by (auto intro: handler_panics)
  qed
  from c1 c2 c3 show ?thesis by blast
qed

text \<open>
  The theorem at the session that \<^verbatim>\<open>main\<close> sets up from the default flag values, and
  a request with \<^verbatim>\<open>ignore=vendor\<close>.
\<close>

theorem emptied_list_override_panics_witness:
  "fst (ProcessListArgs
         (OptsSetup (NewAnalysis '''') '''' ''main'' ''pkg'' '''' '''' ''''
            False False False ''cha'')) = Inr None \<and>
   map_option ignore
     (opts (snd (ProcessListArgs
         (OptsSetup (NewAnalysis '''') '''' ''main'' ''pkg'' '''' '''' ''''
            False False False ''cha'')))) = Some [] \<and>
   fst (OverrideByHTTP
         (snd (ProcessListArgs
            (OptsSetup (NewAnalysis '''') '''' ''main'' ''pkg'' '''' '''' ''''
               False False False ''cha'')))
         \<lparr>URL_Path = ''/'', Form = [(''ignore'', [''vendor''])]\<rparr>)
     = Inl (IndexOutOfRange 0 0)"
proof -
  let ?ro = "\<lparr>cacheDir = '''', focus = ''main'', group = [''pkg''],
              ignore = [''''], include' = [''''], limit = [''''],
              nointer = False, refresh = False, nostd = False, algo = []\<rparr>"
  let ?a = "OptsSetup (NewAnalysis '''') '''' ''main'' ''pkg'' '''' '''' ''''
              False False False ''cha''"
  let ?r = "\<lparr>URL_Path = ''/'', Form = [(''ignore'', [''vendor''])]\<rparr>"
  have h1: "opts ?a = Some ?ro" by (simp add: OptsSetup_def NewAnalysis_def)
  have h2: "fst (ProcessListArgs ?a) = Inr None"
    using ProcessListArgs_eq [OF h1, of "''pkg''" "[]"]
    by (simp add: tokens_pkg group_value_def)
  have h3: "ignore ?ro \<noteq> [] \<and> nonblank_tokens (hd (ignore ?ro)) = []"
    by (simp add: tokens_empty)
  have h4: "FormValue ?r ''ignore'' \<noteq> ''''" by (simp add: FormValue_def)
  from emptied_list_override_panics [OF h1 h2 refl] h3 h4 h2 show ?thesis
    by blast
qed

subsection \<open>The extension of the cache paths\<close>

text \<open>
  Claim C10, as amended. \<^verbatim>\<open>NewAnalysis\<close> stores its argument as the output format of the
  session. When \<^verbatim>\<open>main\<close> goes on to the analysis, the argument it has passed is the value
  of the output file flag, which is empty (the server mode), whatever the format flag
  says. Let \<open>a'\<close> be a later state of that session with its options \<open>ro\<close>; the output
  format is still the same, since \<^verbatim>\<open>DoAnalysis\<close> and the handler never assign it. Then
  \<^verbatim>\<open>FindCachedImg\<close> looks up the path joined from the cache directory and the focus name
  followed by a dot, and \<^verbatim>\<open>CacheImg\<close> copies the image to the path joined from the cache
  directory and the focus name, followed by a dot. Where the last element of the focus
  name is a name (it is not empty and is neither \<^verbatim>\<open>.\<close> nor \<^verbatim>\<open>..\<close>), the two paths are the
  same: the joined path \<^verbatim>\<open><cacheDir>/<focusNameOrAll>\<close> followed by a dot, with nothing
  after the dot.
\<close>

theorem server_cache_paths:
  assumes "main conv argv = Analyse a algo_v tests_v args file_v"
    and "outputFormat a' = outputFormat a"
    and "opts a' = Some ro"
  shows
    "outputFormat (NewAnalysis fmt0) = fmt0 \<and>
     outputFormat a = file_v \<and> file_v = '''' \<and>
     cache_path a' ro = filepath_Clean (cacheDir ro @ ''/'' @ focus_or_all ro @ ''.'') \<and>
     cache_target a' ro = filepath_Join [cacheDir ro, focus_or_all ro] @ ''.'' \<and>
     FindCachedImg a' fs =
       Inr (if cacheDir ro = '''' \<or> refresh ro then ''''
            else (case os_Stat fs (cache_path a' ro) of
                    Inl err \<Rightarrow> ''''
                  | Inr n \<Rightarrow> cache_path a' ro)) \<and>
     (cacheDir ro \<noteq> '''' \<and> img \<noteq> '''' \<longrightarrow>
        CacheImg a' img fs =
          (case os_MkdirAll fs (cache_target_dir ro) of
             (Some err, fs1) \<Rightarrow> (Inr (Some err), fs1)
           | (None, fs1) \<Rightarrow>
               (Inr (snd (fst (copyFile fs1 img (cache_target a' ro)))),
                snd (copyFile fs1 img (cache_target a' ro))))) \<and>
     (cacheDir ro \<noteq> '''' \<and> last_element (focus_or_all ro) \<noteq> '''' \<and>
      last_element (focus_or_all ro) \<noteq> ''.'' \<and> last_element (focus_or_all ro) \<noteq> ''..'' \<longrightarrow>
        cache_path a' ro = filepath_Join [cacheDir ro, focus_or_all ro] @ ''.'' \<and>
        cache_path a' ro = cache_target a' ro)"
proof -
  from main_Analyse_file [OF assms(1)]
  have f: "file_v = ''''" and g: "outputFormat a = file_v" by simp_all
  from f g assms(2) have e: "outputFormat a' = ''''" by simp
  have p: "cache_path a' ro = filepath_Clean (cacheDir ro @ ''/'' @ focus_or_all ro @ ''.'')"
    by (simp add: cache_path_def e)
  have t: "cache_target a' ro = filepath_Join [cacheDir ro, focus_or_all ro] @ ''.''"
    by (simp add: cache_target_def e)
  have c: "CacheImg a' img fs =
          (case os_MkdirAll fs (cache_target_dir ro) of
             (Some err, fs1) \<Rightarrow> (Inr (Some err), fs1)
           | (None, fs1) \<Rightarrow>
               (Inr (snd (fst (copyFile fs1 img (cache_target a' ro)))),
                snd (copyFile fs1 img (cache_target a' ro))))"
    if "cacheDir ro \<noteq> '''' \<and> img \<noteq> ''''"
    using CacheImg_steps [OF assms(3), of img fs] that by simp
  have d: "cache_path a' ro = filepath_Join [cacheDir ro, focus_or_all ro] @ ''.'' \<and>
        cache_path a' ro = cache_target a' ro"
    if "cacheDir ro \<noteq> '''' \<and> last_element (focus_or_all ro) \<noteq> '''' \<and>
      last_element (focus_or_all ro) \<noteq> ''.'' \<and> last_element (focus_or_all ro) \<noteq> ''..''"
    using cache_paths_dot [of ro a'] that e by simp
  have n: "outputFormat (NewAnalysis fmt0) = fmt0" by (simp add: NewAnalysis_def)
  note q = FindCachedImg_eq [OF assms(3), of fs]
  from n f g p t q c d show ?thesis by blast
qed

text \<open>
  The theorem at the command line \<^verbatim>\<open>-cacheDir /tmp/c -format svg ./cmd\<close>: a cached
  file \<^verbatim>\<open>/tmp/c/main.svg\<close> is not found, a file \<^verbatim>\<open>/tmp/c/main.\<close> is, and \<^verbatim>\<open>CacheImg\<close>
  writes to \<^verbatim>\<open>/tmp/c/main.\<close>.
\<close>

theorem server_cache_paths_witness:
  "outputFormat (NewAnalysis ''svg'') = ''svg'' \<and>
   FindCachedImg
     ((OptsSetup (NewAnalysis '''') ''/tmp/c'' ''main'' ''pkg'' '''' '''' '''' False False False ''cha'')
      \<lparr>Minlen := 2,
        PrintOptions := [(''minlen'', ''2''), (''nodesep'', ''0.35''), (''nodeshape'', ''box''),
                         (''nodestyle'', ''filled,rounded''), (''rankdir'', ''LR'')]\<rparr>)
     \<lparr>nodes = [[] \<mapsto> Directory all_access, [''tmp''] \<mapsto> Directory all_access,
               [''tmp'', ''c''] \<mapsto> Directory all_access,
               [''tmp'', ''c'', ''main.svg''] \<mapsto> RegularFile file_access ''<svg/>''],
      cwd = []\<rparr> = Inr '''' \<and>
   FindCachedImg
     ((OptsSetup (NewAnalysis '''') ''/tmp/c'' ''main'' ''pkg'' '''' '''' '''' False False False ''cha'')
      \<lparr>Minlen := 2,
        PrintOptions := [(''minlen'', ''2''), (''nodesep'', ''0.35''), (''nodeshape'', ''box''),
                         (''nodestyle'', ''filled,rounded''), (''rankdir'', ''LR'')]\<rparr>)
     \<lparr>nodes = [[] \<mapsto> Directory all_access, [''tmp''] \<mapsto> Directory all_access,
               [''tmp'', ''c''] \<mapsto> Directory all_access,
               [''tmp'', ''c'', ''main.''] \<mapsto> RegularFile file_access ''<svg/>''],
      cwd = []\<rparr> = Inr ''/tmp/c/main.'' \<and>
   cache_target
     ((OptsSetup (NewAnalysis '''') ''/tmp/c'' ''main'' ''pkg'' '''' '''' '''' False False False ''cha'')
      \<lparr>Minlen := 2,
        PrintOptions := [(''minlen'', ''2''), (''nodesep'', ''0.35''), (''nodeshape'', ''box''),
                         (''nodestyle'', ''filled,rounded''), (''rankdir'', ''LR'')]\<rparr>)
     \<lparr>cacheDir = ''/tmp/c'', focus = ''main'', group = [''pkg''],
      ignore = [''''], include' = [''''], limit = [''''],
      nointer = False, refresh = False, nostd = False, algo = []\<rparr> = ''/tmp/c/main.''"
proof -
  let ?a = "(OptsSetup (NewAnalysis '''') ''/tmp/c'' ''main'' ''pkg'' '''' '''' '''' False False False ''cha'')
      \<lparr>Minlen := 2,
        PrintOptions := [(''minlen'', ''2''), (''nodesep'', ''0.35''), (''nodeshape'', ''box''),
                         (''nodestyle'', ''filled,rounded''), (''rankdir'', ''LR'')]\<rparr>"
  let ?ro = "\<lparr>cacheDir = ''/tmp/c'', focus = ''main'', group = [''pkg''],
      ignore = [''''], include' = [''''], limit = [''''],
      nointer = False, refresh = False, nostd = False, algo = []\<rparr>"
  let ?f1 = "\<lparr>nodes = [[] \<mapsto> Directory all_access, [''tmp''] \<mapsto> Directory all_access,
               [''tmp'', ''c''] \<mapsto> Directory all_access,
               [''tmp'', ''c'', ''main.svg''] \<mapsto> RegularFile file_access ''<svg/>''],
      cwd = []\<rparr>"
  let ?f2 = "\<lparr>nodes = [[] \<mapsto> Directory all_access, [''tmp''] \<mapsto> Directory all_access,
               [''tmp'', ''c''] \<mapsto> Directory all_access,
               [''tmp'', ''c'', ''main.''] \<mapsto> RegularFile file_access ''<svg/>''],
      cwd = []\<rparr>"
  have o: "opts ?a = Some ?ro" by (simp add: OptsSetup_def NewAnalysis_def)
  have j: "filepath_Join [cacheDir ?ro, focus_or_all ?ro] @ ''.'' = ''/tmp/c/main.''"
    by code_simp
  have l: "cacheDir ?ro \<noteq> '''' \<and> last_element (focus_or_all ?ro) \<noteq> '''' \<and>
      last_element (focus_or_all ?ro) \<noteq> ''.'' \<and> last_element (focus_or_all ?ro) \<noteq> ''..''"
    by code_simp
  have s1: "os_Stat ?f1 ''/tmp/c/main.'' = Inl (PathError ''stat'' ''/tmp/c/main.'' ENOENT)"
    by code_simp
  have s2: "os_Stat ?f2 ''/tmp/c/main.'' = Inr (RegularFile file_access ''<svg/>'')"
    by code_simp
  have d: "cacheDir ?ro \<noteq> ''''" "\<not> refresh ?ro" by simp_all
  note w1 = server_cache_paths [OF example_main_run refl o, of "''svg''" ?f1]
  note w2 = server_cache_paths [OF example_main_run refl o, of "''svg''" ?f2]
  from w1 l have cp: "cache_path ?a ?ro = filepath_Join [cacheDir ?ro, focus_or_all ?ro] @ ''.''"
    and ct: "cache_target ?a ?ro = filepath_Join [cacheDir ?ro, focus_or_all ?ro] @ ''.''"
    by blast+
  from cp have cp': "cache_path ?a ?ro = ''/tmp/c/main.''" unfolding j .
  from ct have r3: "cache_target ?a ?ro = ''/tmp/c/main.''" unfolding j .
  from w1 have "FindCachedImg ?a ?f1 =
       Inr (if cacheDir ?ro = '''' \<or> refresh ?ro then ''''
            else (case os_Stat ?f1 (cache_path ?a ?ro) of
                    Inl err \<Rightarrow> ''''
                  | Inr n \<Rightarrow> cache_path ?a ?ro))" by blast
  then have r1: "FindCachedImg ?a ?f1 = Inr ''''"
    unfolding cp' s1 using d by simp
  from w2 have "FindCachedImg ?a ?f2 =
       Inr (if cacheDir ?ro = '''' \<or> refresh ?ro then ''''
            else (case os_Stat ?f2 (cache_path ?a ?ro) of
                    Inl err \<Rightarrow> ''''
                  | Inr n \<Rightarrow> cache_path ?a ?ro))" by blast
  then have r2: "FindCachedImg ?a ?f2 = Inr ''/tmp/c/main.''"
    unfolding cp' s2 using d by simp
  from w1 have r0: "outputFormat (NewAnalysis ''svg'') = ''svg''" by blast
  from r0 r1 r2 r3 show ?thesis by blast
qed

text \<open>
  The claim as it was stated fails for a focus name that ends in a separator. At the
  command line \<^verbatim>\<open>-cacheDir /tmp/c -focus github.com/x/ ./cmd\<close> the path \<^verbatim>\<open>FindCachedImg\<close>
  looks up is \<^verbatim>\<open>/tmp/c/github.com/x\<close>, which has no dot and is here a directory that is
  found, while \<^verbatim>\<open>CacheImg\<close> would write to \<^verbatim>\<open>/tmp/c/github.com/x.\<close>
\<close>

theorem server_cache_paths_counterexample:
  "main (\<lambda>k s. Some s) [''-cacheDir'', ''/tmp/c'', ''-focus'', ''github.com/x/'', ''./cmd''] =
     Analyse
       ((OptsSetup (NewAnalysis '''') ''/tmp/c'' ''github.com/x/'' ''pkg'' '''' '''' ''''
           False False False ''cha'')
        \<lparr>Minlen := 2,
          PrintOptions := [(''minlen'', ''2''), (''nodesep'', ''0.35''), (''nodeshape'', ''box''),
                           (''nodestyle'', ''filled,rounded''), (''rankdir'', ''LR'')]\<rparr>)
       ''cha'' False [''./cmd''] '''' \<and>
   FindCachedImg
     ((OptsSetup (NewAnalysis '''') ''/tmp/c'' ''github.com/x/'' ''pkg'' '''' '''' ''''
         False False False ''cha'')
      \<lparr>Minlen := 2,
        PrintOptions := [(''minlen'', ''2''), (''nodesep'', ''0.35''), (''nodeshape'', ''box''),
                         (''nodestyle'', ''filled,rounded''), (''rankdir'', ''LR'')]\<rparr>)
     \<lparr>nodes = [[] \<mapsto> Directory all_access, [''tmp''] \<mapsto> Directory all_access,
               [''tmp'', ''c''] \<mapsto> Directory all_access,
               [''tmp'', ''c'', ''github.com''] \<mapsto> Directory all_access,
               [''tmp'', ''c'', ''github.com'', ''x''] \<mapsto> Directory all_access],
      cwd = []\<rparr> = Inr ''/tmp/c/github.com/x'' \<and>
   cache_target
     ((OptsSetup (NewAnalysis '''') ''/tmp/c'' ''github.com/x/'' ''pkg'' '''' '''' ''''
         False False False ''cha'')
      \<lparr>Minlen := 2,
        PrintOptions := [(''minlen'', ''2''), (''nodesep'', ''0.35''), (''nodeshape'', ''box''),
                         (''nodestyle'', ''filled,rounded''), (''rankdir'', ''LR'')]\<rparr>)
     \<lparr>cacheDir = ''/tmp/c'', focus = ''github.com/x/'', group = [''pkg''],
      ignore = [''''], include' = [''''], limit = [''''],
      nointer = False, refresh = False, nostd = False, algo = []\<rparr> = ''/tmp/c/github.com/x.''"
  by code_simp

section \<open>Further properties\<close>

text \<open>
  Property X1. In a session whose group, limit, ignore and include lists are not empty,
  \<^verbatim>\<open>OverrideByHTTP\<close> does not panic and changes the options as follows: the parameter
  \<^verbatim>\<open>f\<close> with the value \<^verbatim>\<open>all\<close> empties the focus, any other non-empty value becomes
  the focus; a non-empty \<^verbatim>\<open>std\<close> clears the flag that omits the standard library, a
  non-empty \<^verbatim>\<open>nointer\<close> sets the flag that omits unexported functions, a non-empty
  \<^verbatim>\<open>refresh\<close> sets the refresh flag; a non-empty \<^verbatim>\<open>group\<close>, \<^verbatim>\<open>limit\<close>, \<^verbatim>\<open>ignore\<close> or
  \<^verbatim>\<open>include\<close> replaces the first element of its list by the raw value. Nothing else
  changes.
\<close>

theorem OverrideByHTTP_overrides:
  assumes "opts a = Some ro"
    and "group ro \<noteq> []" and "limit ro \<noteq> []" and "ignore ro \<noteq> []" and "include' ro \<noteq> []"
  shows
    "\<exists>ro'. OverrideByHTTP a r = (Inr (), a\<lparr>opts := Some ro'\<rparr>) \<and>
       focus ro' =
         (if FormValue r ''f'' = ''all'' then ''''
          else if FormValue r ''f'' \<noteq> '''' then FormValue r ''f'' else focus ro) \<and>
       nostd ro' = (if FormValue r ''std'' \<noteq> '''' then False else nostd ro) \<and>
       nointer ro' = (if FormValue r ''nointer'' \<noteq> '''' then True else nointer ro) \<and>
       refresh ro' = (if FormValue r ''refresh'' \<noteq> '''' then True else refresh ro) \<and>
       group ro' =
         (if FormValue r ''group'' \<noteq> '''' then FormValue r ''group'' # tl (group ro)
          else group ro) \<and>
       limit ro' =
         (if FormValue r ''limit'' \<noteq> '''' then FormValue r ''limit'' # tl (limit ro)
          else limit ro) \<and>
       ignore ro' =
         (if FormValue r ''ignore'' \<noteq> '''' then FormValue r ''ignore'' # tl (ignore ro)
          else ignore ro) \<and>
       include' ro' =
         (if FormValue r ''include'' \<noteq> '''' then FormValue r ''include'' # tl (include' ro)
          else include' ro) \<and>
       cacheDir ro' = cacheDir ro \<and> algo ro' = algo ro"
proof -
  let ?ro' = "(override_flags ro r)
            \<lparr>group := (if FormValue r ''group'' \<noteq> '''' then (group ro)[0 := FormValue r ''group'']
                       else group ro),
             limit := (if FormValue r ''limit'' \<noteq> '''' then (limit ro)[0 := FormValue r ''limit'']
                       else limit ro),
             ignore := (if FormValue r ''ignore'' \<noteq> '''' then (ignore ro)[0 := FormValue r ''ignore'']
                        else ignore ro),
             include' := (if FormValue r ''include'' \<noteq> ''''
                          then (include' ro)[0 := FormValue r ''include''] else include' ro)\<rparr>"
  have e: "OverrideByHTTP a r = (Inr (), a\<lparr>opts := Some ?ro'\<rparr>)"
    by (rule OverrideByHTTP_ok [OF assms])
  have f1: "focus ?ro' =
         (if FormValue r ''f'' = ''all'' then ''''
          else if FormValue r ''f'' \<noteq> '''' then FormValue r ''f'' else focus ro)"
    by (simp add: override_flags_fields)
  have f2: "nostd ?ro' = (if FormValue r ''std'' \<noteq> '''' then False else nostd ro)"
    by (simp add: override_flags_fields)
  have f3: "nointer ?ro' = (if FormValue r ''nointer'' \<noteq> '''' then True else nointer ro)"
    by (simp add: override_flags_fields)
  have f4: "refresh ?ro' = (if FormValue r ''refresh'' \<noteq> '''' then True else refresh ro)"
    by (simp add: override_flags_fields)
  have f5: "group ?ro' =
         (if FormValue r ''group'' \<noteq> '''' then FormValue r ''group'' # tl (group ro)
          else group ro)"
    using assms(2) by (simp add: list_update_first)
  have f6: "limit ?ro' =
         (if FormValue r ''limit'' \<noteq> '''' then FormValue r ''limit'' # tl (limit ro)
          else limit ro)"
    using assms(3) by (simp add: list_update_first)
  have f7: "ignore ?ro' =
         (if FormValue r ''ignore'' \<noteq> '''' then FormValue r ''ignore'' # tl (ignore ro)
          else ignore ro)"
    using assms(4) by (simp add: list_update_first)
  have f8: "include' ?ro' =
         (if FormValue r ''include'' \<noteq> '''' then FormValue r ''include'' # tl (include' ro)
          else include' ro)"
    using assms(5) by (simp add: list_update_first)
  have f9: "cacheDir ?ro' = cacheDir ro" "algo ?ro' = algo ro"
    by (simp_all add: override_flags_fields)
  from e f1 f2 f3 f4 f5 f6 f7 f8 f9 show ?thesis by blast
qed

text \<open>
  The theorem at the session of the default flags with \<^verbatim>\<open>-nostd\<close>, and a request with
  \<^verbatim>\<open>f=all\<close>, \<^verbatim>\<open>std=1\<close>, \<^verbatim>\<open>group=pkg,type\<close> and two values of \<^verbatim>\<open>limit\<close>.
\<close>

theorem OverrideByHTTP_overrides_witness:
  "OverrideByHTTP
     (OptsSetup (NewAnalysis '''') '''' ''main'' ''pkg'' '''' '''' '''' False False True ''cha'')
     \<lparr>URL_Path = ''/'',
      Form = [(''f'', [''all'']), (''std'', [''1'']), (''group'', [''pkg,type'']),
              (''limit'', [''a/b'', ''c''])]\<rparr>
   = (Inr (),
      (OptsSetup (NewAnalysis '''') '''' ''main'' ''pkg'' '''' '''' '''' False False True ''cha'')
        \<lparr>opts := Some
           \<lparr>cacheDir = '''', focus = '''', group = [''pkg,type''],
            ignore = [''''], include' = [''''], limit = [''a/b''],
            nointer = False, refresh = False, nostd = False, algo = []\<rparr>\<rparr>)"
proof -
  let ?a = "OptsSetup (NewAnalysis '''') '''' ''main'' ''pkg'' '''' '''' '''' False False True ''cha''"
  let ?ro = "\<lparr>cacheDir = '''', focus = ''main'', group = [''pkg''],
              ignore = [''''], include' = [''''], limit = [''''],
              nointer = False, refresh = False, nostd = True, algo = []\<rparr>"
  let ?r = "\<lparr>URL_Path = ''/'',
      Form = [(''f'', [''all'']), (''std'', [''1'']), (''group'', [''pkg,type'']),
              (''limit'', [''a/b'', ''c''])]\<rparr>"
  have o: "opts ?a = Some ?ro" by (simp add: OptsSetup_def NewAnalysis_def)
  have n: "group ?ro \<noteq> []" "limit ?ro \<noteq> []" "ignore ?ro \<noteq> []" "include' ?ro \<noteq> []"
    by simp_all
  from OverrideByHTTP_overrides [OF o n, of ?r]
  obtain ro' where e: "OverrideByHTTP ?a ?r = (Inr (), ?a\<lparr>opts := Some ro'\<rparr>)"
    and f: "focus ro' = ''''" "nostd ro' = False" "nointer ro' = False" "refresh ro' = False"
           "group ro' = [''pkg,type'']" "limit ro' = [''a/b'']" "ignore ro' = ['''']"
           "include' ro' = ['''']" "cacheDir ro' = ''''" "algo ro' = []"
    by (auto simp: FormValue_def)
  from f have "ro' = \<lparr>cacheDir = '''', focus = '''', group = [''pkg,type''],
            ignore = [''''], include' = [''''], limit = [''a/b''],
            nointer = False, refresh = False, nostd = False, algo = []\<rparr>"
    by (cases ro') simp
  with e show ?thesis by simp
qed

end
